theory Spec2Isabelle
  imports Main
begin

section \<open>JavaScript values, completions and events\<close>

text \<open>
  The primitive values a consumer can hand to a property of the element. Numbers are left
  out: the accessors of \<^verbatim>\<open>LumeButton\<close> only test a value for truthiness or turn it into an
  attribute string.
\<close>

datatype jsval = JUndefined | JNull | JBool bool | JStr string

fun ToBoolean :: "jsval \<Rightarrow> bool" where
  "ToBoolean JUndefined = False"
| "ToBoolean JNull = False"
| "ToBoolean (JBool b) = b"
| "ToBoolean (JStr s) = (s \<noteq> [])"

fun ToString :: "jsval \<Rightarrow> string" where
  "ToString JUndefined = ''undefined''"
| "ToString JNull = ''null''"
| "ToString (JBool b) = (if b then ''true'' else ''false'')"
| "ToString (JStr s) = s"

text \<open>
  \<^verbatim>\<open>getAttribute\<close> returns a string or \<^verbatim>\<open>null\<close>: a \<open>string option\<close>. Both \<^verbatim>\<open>null\<close> and
  the empty string are falsy.
\<close>

definition truthy :: "string option \<Rightarrow> bool" where
  "truthy a = (case a of None \<Rightarrow> False | Some v \<Rightarrow> v \<noteq> [])"

text \<open>The expression \<^verbatim>\<open>a || d\<close> for a string-or-null \<open>a\<close>.\<close>

definition or_else :: "string option \<Rightarrow> string \<Rightarrow> string" where
  "or_else a d = (case a of None \<Rightarrow> d | Some v \<Rightarrow> if v = [] then d else v)"

text \<open>The value a getter built on \<^verbatim>\<open>getAttribute\<close> hands back to JavaScript.\<close>

definition js_of_attr :: "string option \<Rightarrow> jsval" where
  "js_of_attr a = (case a of None \<Rightarrow> JNull | Some v \<Rightarrow> JStr v)"

datatype js_error = TypeError string | SyntaxError string | Thrown jsval

text \<open>
  A completion is either a normal return or a throw; both carry the state that was reached,
  since whatever ran before a throw stays done.
\<close>

datatype 'a completion = Returned 'a | Threw js_error 'a

text \<open>Sequencing: a throw skips what follows.\<close>

definition bind_completion :: "'a completion \<Rightarrow> ('a \<Rightarrow> 'a completion) \<Rightarrow> 'a completion" where
  "bind_completion c f = (case c of Returned x \<Rightarrow> f x | Threw e x \<Rightarrow> Threw e x)"

text \<open>\<^verbatim>\<open>try { body } catch (error) { handler }\<close>\<close>

definition try_catch :: "'a completion \<Rightarrow> (js_error \<Rightarrow> 'a \<Rightarrow> 'a completion) \<Rightarrow> 'a completion" where
  "try_catch body handler = (case body of Returned x \<Rightarrow> Returned x | Threw e x \<Rightarrow> handler e x)"

text \<open>
  The part of a DOM event the handlers read and write. \<open>key\<close> is \<^verbatim>\<open>undefined\<close> (\<open>None\<close>)
  on a pointer event. \<^verbatim>\<open>preventDefault\<close> sets the canceled flag of a cancelable event only.
\<close>

record event =
  key :: "string option"
  cancelable :: bool
  defaultPrevented :: bool
  propagationStopped :: bool

definition preventDefault :: "event \<Rightarrow> event" where
  "preventDefault ev = ev\<lparr>defaultPrevented := defaultPrevented ev \<or> cancelable ev\<rparr>"

definition stopPropagation :: "event \<Rightarrow> event" where
  "stopPropagation ev = ev\<lparr>propagationStopped := True\<rparr>"

section \<open>The instance, its shadow tree and the host's side effects\<close>

text \<open>
  The \<^verbatim>\<open>CustomEvent\<close> that \<^verbatim>\<open>handleClick\<close> builds; \<^verbatim>\<open>detail.button\<close> is the instance itself.
\<close>

record custom_event =
  event_type :: string
  bubbles :: bool
  composed :: bool
  detail_originalEvent :: event
  detail_href :: "string option"
  detail_variant :: string
  detail_size :: string

text \<open>Calls that leave the component, in the order they are made.\<close>

datatype effect =
    NewFunction string
  | HandlerCall
  | ConsoleError string js_error
  | WindowOpen string string string
  | LocationAssign string
  | DispatchEvent custom_event

text \<open>
  The rendered \<^verbatim>\<open>.btn\<close> element: its click listeners (the ripple closures, by identity) and
  its appended child overlays. A ripple \<^verbatim>\<open>span\<close> with the style properties \<^verbatim>\<open>createRipple\<close>
  writes. A pending \<^verbatim>\<open>setTimeout\<close> task with its delay in milliseconds and the ripple its
  closure captured.
\<close>

record btn_elem =
  click_listeners :: "nat list"
  children :: "nat list"

record ripple_elem =
  classList :: "string list"
  style_width :: string
  style_height :: string
  style_left :: string
  style_top :: string
  parentNode :: "nat option"

record timer =
  delay_ms :: nat
  captured_ripple :: nat

text \<open>
  The state of one \<^verbatim>\<open>LumeButton\<close>: its attribute bag, the plain own data properties consumers
  put on it, the fields of the class (\<^verbatim>\<open>_initialized\<close>, \<^verbatim>\<open>_rippleCleanup\<close>, \<^verbatim>\<open>_instanceId\<close>),
  the shadow root (the markup last assigned to \<^verbatim>\<open>innerHTML\<close> and the \<^verbatim>\<open>.btn\<close> element it
  produced), the listeners on the host element, a store of the elements created so far
  (closures keep detached ones alive), the pending timers, the trace of outside calls, and
  the random source: \<open>rand_suffix n\<close> is what the \<open>n\<close>-th evaluation of
  \<^verbatim>\<open>Math.random().toString(36).substr(2, 9)\<close> yields.
\<close>

record lume_button =
  attrs :: "string \<rightharpoonup> string"
  own :: "string \<rightharpoonup> jsval"
  initialized :: bool
  rippleCleanup :: "(nat \<times> nat) option"
  instanceId :: "string option"
  shadow_html :: string
  shadow_btn :: "nat option"
  click_bound :: bool
  keydown_bound :: bool
  btns :: "nat \<rightharpoonup> btn_elem"
  ripples :: "nat \<rightharpoonup> ripple_elem"
  next_node :: nat
  timers :: "timer list"
  effects :: "effect list"
  rand_suffix :: "nat \<Rightarrow> string"
  rand_calls :: nat

text \<open>
  The constructor: an open, empty shadow root and the two fields it initialises. An element
  that is upgraded already has the attributes of its markup and the properties set on it.
\<close>

definition construct :: "(string \<rightharpoonup> string) \<Rightarrow> (string \<rightharpoonup> jsval) \<Rightarrow> (nat \<Rightarrow> string) \<Rightarrow> lume_button" where
  "construct a p rnd =
     \<lparr>attrs = a, own = p, initialized = False, rippleCleanup = None, instanceId = None,
      shadow_html = [], shadow_btn = None, click_bound = False, keydown_bound = False,
      btns = Map.empty, ripples = Map.empty, next_node = 0, timers = [], effects = [],
      rand_suffix = rnd, rand_calls = 0\<rparr>"

definition observedAttributes :: "string list" where
  "observedAttributes =
     [''variant'', ''size'', ''disabled'', ''href'', ''target'', ''color'', ''bg-color'',
      ''hover-color'', ''hover-bg-color'', ''active-color'', ''active-bg-color'', ''border'',
      ''radius'', ''padding'', ''font-size'', ''font-weight'', ''width'', ''height'',
      ''glow-color'', ''shadow'', ''onclick-handler'', ''loading'', ''full-width'']"

section \<open>Property getters\<close>

definition getAttribute :: "string \<Rightarrow> lume_button \<Rightarrow> string option" where
  "getAttribute name s = attrs s name"

definition hasAttribute :: "string \<Rightarrow> lume_button \<Rightarrow> bool" where
  "hasAttribute name s = (attrs s name \<noteq> None)"

definition validVariants :: "string list" where
  "validVariants = [''primary'', ''secondary'', ''outlined'', ''ghost'', ''glow'', ''icon-btn'', ''link'']"

definition get_variant :: "lume_button \<Rightarrow> string" where
  "get_variant s =
     (let v = or_else (getAttribute ''variant'' s) ''primary''
      in if v \<in> set validVariants then v else ''primary'')"

definition validSizes :: "string list" where
  "validSizes = [''small'', ''medium'', ''large'']"

definition get_size :: "lume_button \<Rightarrow> string" where
  "get_size s =
     (let v = or_else (getAttribute ''size'' s) ''medium''
      in if v \<in> set validSizes then v else ''medium'')"

definition get_disabled :: "lume_button \<Rightarrow> bool" where
  "get_disabled s = hasAttribute ''disabled'' s"

definition get_loading :: "lume_button \<Rightarrow> bool" where
  "get_loading s = hasAttribute ''loading'' s"

definition get_fullWidth :: "lume_button \<Rightarrow> bool" where
  "get_fullWidth s = hasAttribute ''full-width'' s"

definition get_href :: "lume_button \<Rightarrow> string option" where
  "get_href s = getAttribute ''href'' s"

definition validTargets :: "string list" where
  "validTargets = [''_self'', ''_blank'', ''_parent'', ''_top'']"

definition get_target :: "lume_button \<Rightarrow> string" where
  "get_target s =
     (let v = or_else (getAttribute ''target'' s) ''_self''
      in if v \<in> set validTargets then v else ''_self'')"

definition get_color :: "lume_button \<Rightarrow> string option" where
  "get_color s = getAttribute ''color'' s"

definition get_bgColor :: "lume_button \<Rightarrow> string option" where
  "get_bgColor s = getAttribute ''bg-color'' s"

definition get_hoverColor :: "lume_button \<Rightarrow> string option" where
  "get_hoverColor s = getAttribute ''hover-color'' s"

definition get_hoverBgColor :: "lume_button \<Rightarrow> string option" where
  "get_hoverBgColor s = getAttribute ''hover-bg-color'' s"

definition get_activeColor :: "lume_button \<Rightarrow> string option" where
  "get_activeColor s = getAttribute ''active-color'' s"

definition get_activeBgColor :: "lume_button \<Rightarrow> string option" where
  "get_activeBgColor s = getAttribute ''active-bg-color'' s"

definition get_border :: "lume_button \<Rightarrow> string option" where
  "get_border s = getAttribute ''border'' s"

definition get_radius :: "lume_button \<Rightarrow> string option" where
  "get_radius s = getAttribute ''radius'' s"

definition get_padding :: "lume_button \<Rightarrow> string option" where
  "get_padding s = getAttribute ''padding'' s"

definition get_fontSize :: "lume_button \<Rightarrow> string option" where
  "get_fontSize s = getAttribute ''font-size'' s"

definition get_fontWeight :: "lume_button \<Rightarrow> string option" where
  "get_fontWeight s = getAttribute ''font-weight'' s"

definition get_width :: "lume_button \<Rightarrow> string option" where
  "get_width s = getAttribute ''width'' s"

definition get_height :: "lume_button \<Rightarrow> string option" where
  "get_height s = getAttribute ''height'' s"

definition get_glowColor :: "lume_button \<Rightarrow> string option" where
  "get_glowColor s = getAttribute ''glow-color'' s"

definition get_shadow :: "lume_button \<Rightarrow> string option" where
  "get_shadow s = getAttribute ''shadow'' s"

definition get_onclickHandler :: "lume_button \<Rightarrow> string option" where
  "get_onclickHandler s = getAttribute ''onclick-handler'' s"

section \<open>Rendering\<close>

text \<open>
  \<^verbatim>\<open>if (v) styles.push(`${pre}${v}${post}`)\<close>: the declarations one override
  contributes, none when the attribute is missing or empty.
\<close>

definition push_style :: "string option \<Rightarrow> string \<Rightarrow> string \<Rightarrow> string list" where
  "push_style a pre post =
     (case a of None \<Rightarrow> [] | Some v \<Rightarrow> if v = [] then [] else [pre @ v @ post])"

fun join :: "string \<Rightarrow> string list \<Rightarrow> string" where
  "join sep [] = []"
| "join sep [x] = x"
| "join sep (x # y # ys) = x @ sep @ join sep (y # ys)"

definition generateInlineStyles :: "lume_button \<Rightarrow> string" where
  "generateInlineStyles s =
     join ''; ''
       (push_style (get_color s) ''color: '' [] @
        push_style (get_bgColor s) ''background: '' [] @
        push_style (get_border s) ''border: '' '' !important'' @
        push_style (get_radius s) ''border-radius: '' '' !important'' @
        push_style (get_padding s) ''padding: '' '' !important'' @
        push_style (get_fontSize s) ''font-size: '' '' !important'' @
        push_style (get_fontWeight s) ''font-weight: '' '' !important'' @
        push_style (get_width s) ''width: '' '' !important'' @
        push_style (get_height s) ''height: '' '' !important'' @
        push_style (get_shadow s) ''box-shadow: '' '' !important'')"

text \<open>
  \<^verbatim>\<open>getInstanceId\<close>: the identifier is drawn once, when \<^verbatim>\<open>_instanceId\<close> is still falsy, and
  kept from then on.
\<close>

definition getInstanceId :: "lume_button \<Rightarrow> string \<times> lume_button" where
  "getInstanceId s =
     (let fresh = ''lume-btn-'' @ rand_suffix s (rand_calls s);
          drawn = (fresh, s\<lparr>instanceId := Some fresh, rand_calls := Suc (rand_calls s)\<rparr>)
      in case instanceId s of
           None \<Rightarrow> drawn
         | Some i \<Rightarrow> if i = [] then drawn else (i, s))"

definition glowEffect :: "lume_button \<Rightarrow> string" where
  \<open>glowEffect s =
     (if get_variant s = ''glow'' then
        let glowColor = or_else (get_glowColor s) ''rgba(37, 99, 235, 0.5)''
        in ''\<newline>'' @ ''        .btn.variant-glow {\<newline>'' @ ''          box-shadow: 0 0 20px '' @
           glowColor @
           '' !important;\<newline>'' @ ''        }\<newline>'' @
           ''        .btn.variant-glow:hover:not(.disabled):not(.loading) {\<newline>'' @
           ''          box-shadow: 0 0 30px '' @
           glowColor @
           '' !important;\<newline>'' @ ''        }\<newline>'' @ ''      ''
      else [])\<close>

text \<open>\<^verbatim>\<open>a ? `${pre}${a}${post}` : ""\<close>\<close>

definition when_set :: "string option \<Rightarrow> string \<Rightarrow> string \<Rightarrow> string" where
  "when_set a pre post =
     (case a of None \<Rightarrow> [] | Some v \<Rightarrow> if v = [] then [] else pre @ v @ post)"

definition customHoverActiveStyles :: "string \<Rightarrow> lume_button \<Rightarrow> string" where
  \<open>customHoverActiveStyles instId s =
     ''\<newline>'' @ ''      /* Custom hover styles with higher specificity */\<newline>'' @ ''      .btn.'' @
     instId @
     '':hover:not(.disabled):not(.loading) {\<newline>'' @ ''        '' @
     when_set (get_hoverColor s) ''color: '' '' !important;'' @
     ''\<newline>'' @ ''        '' @
     when_set (get_hoverBgColor s) ''background: '' '' !important;'' @
     ''\<newline>'' @ ''      }\<newline>'' @ ''      \<newline>'' @
     ''      /* Custom active styles with higher specificity */\<newline>'' @ ''      .btn.'' @
     instId @
     '':active:not(.disabled):not(.loading) {\<newline>'' @ ''        '' @
     when_set (get_activeColor s) ''color: '' '' !important;'' @
     ''\<newline>'' @ ''        '' @
     when_set (get_activeBgColor s) ''background: '' '' !important;'' @
     ''\<newline>'' @ ''      }\<newline>'' @ ''    ''\<close>

text \<open>
  The fixed style rules of the template, as they stand between its interpolations: from
  the host's \<^verbatim>\<open>display\<close> value to the glow effect, and from the instance-scoped rules to
  the opening of the rendered element.
\<close>

definition style_rules_variants :: string where
  \<open>style_rules_variants = concat [
    '';\<newline>'',
    ''          --primary-bg: #2563eb;\<newline>'',
    ''          --primary-color: #ffffff;\<newline>'',
    ''          --primary-hover-bg: #1d4ed8;\<newline>'',
    ''          --primary-active-bg: #1e40af;\<newline>'',
    ''          \<newline>'',
    ''          --secondary-bg: #6b7280;\<newline>'',
    ''          --secondary-color: #ffffff;\<newline>'',
    ''          --secondary-hover-bg: #4b5563;\<newline>'',
    ''          --secondary-active-bg: #374151;\<newline>'',
    ''          \<newline>'',
    ''          --outlined-bg: transparent;\<newline>'',
    ''          --outlined-color: #2563eb;\<newline>'',
    ''          --outlined-border: 1px solid #2563eb;\<newline>'',
    ''          --outlined-hover-bg: #2563eb;\<newline>'',
    ''          --outlined-hover-color: #ffffff;\<newline>'',
    ''          \<newline>'',
    ''          --ghost-bg: transparent;\<newline>'',
    ''          --ghost-color: #374151;\<newline>'',
    ''          --ghost-hover-bg: #f3f4f6;\<newline>'',
    ''          --ghost-active-bg: #e5e7eb;\<newline>'',
    ''          \<newline>'',
    ''          --link-bg: transparent;\<newline>'',
    ''          --link-color: #2563eb;\<newline>'',
    ''          --link-hover-color: #1d4ed8;\<newline>'',
    ''        }\<newline>'',
    ''\<newline>'',
    ''        :host([hidden]) {\<newline>'',
    ''          display: none !important;\<newline>'',
    ''        }\<newline>'',
    ''\<newline>'',
    ''        :host([full-width]) .btn {\<newline>'',
    ''          width: 100%;\<newline>'',
    ''        }\<newline>'',
    ''\<newline>'',
    ''        .btn {\<newline>'',
    ''          display: inline-flex;\<newline>'',
    ''          align-items: center;\<newline>'',
    ''          justify-content: center;\<newline>'',
    ''          gap: 0.5rem;\<newline>'',
    ''          position: relative;\<newline>'',
    ''          overflow: hidden;\<newline>'',
    ''          \<newline>'',
    ''          font-family: 'Inter', -apple-system, BlinkMacSystemFont, 'Segoe UI', Roboto, sans-serif;\<newline>'',
    ''          font-weight: 500;\<newline>'',
    ''          text-decoration: none;\<newline>'',
    ''          text-align: center;\<newline>'',
    ''          white-space: nowrap;\<newline>'',
    ''          user-select: none;\<newline>'',
    ''          vertical-align: middle;\<newline>'',
    ''          line-height: 1.2;\<newline>'',
    ''          \<newline>'',
    ''          min-width: 0;\<newline>'',
    ''          border: 1px solid transparent;\<newline>'',
    ''          border-radius: 0.5rem;\<newline>'',
    ''          \<newline>'',
    ''          cursor: pointer;\<newline>'',
    ''          transition: all 0.15s ease-in-out;\<newline>'',
    ''          outline: none;\<newline>'',
    ''        }\<newline>'',
    ''\<newline>'',
    ''        /* Size variants */\<newline>'',
    ''        .size-small {\<newline>'',
    ''          font-size: 0.875rem;\<newline>'',
    ''          padding: 0.375rem 0.75rem;\<newline>'',
    ''          min-height: 2rem;\<newline>'',
    ''        }\<newline>'',
    ''\<newline>'',
    ''        .size-medium {\<newline>'',
    ''          font-size: 1rem;\<newline>'',
    ''          padding: 0.5rem 1rem;\<newline>'',
    ''          min-height: 2.5rem;\<newline>'',
    ''        }\<newline>'',
    ''\<newline>'',
    ''        .size-large {\<newline>'',
    ''          font-size: 1.125rem;\<newline>'',
    ''          padding: 0.75rem 1.5rem;\<newline>'',
    ''          min-height: 3rem;\<newline>'',
    ''        }\<newline>'',
    ''\<newline>'',
    ''        /* Variant styles */\<newline>'',
    ''        .variant-primary {\<newline>'',
    ''          background-color: var(--primary-bg);\<newline>'',
    ''          color: var(--primary-color);\<newline>'',
    ''          border-color: var(--primary-bg);\<newline>'',
    ''        }\<newline>'',
    ''\<newline>'',
    ''        .variant-primary:hover:not(.disabled):not(.loading) {\<newline>'',
    ''          background-color: var(--primary-hover-bg);\<newline>'',
    ''          border-color: var(--primary-hover-bg);\<newline>'',
    ''          transform: translateY(-1px);\<newline>'',
    ''        }\<newline>'',
    ''\<newline>'',
    ''        .variant-primary:active:not(.disabled):not(.loading) {\<newline>'',
    ''          background-color: var(--primary-active-bg);\<newline>'',
    ''          border-color: var(--primary-active-bg);\<newline>'',
    ''          transform: translateY(0);\<newline>'',
    ''        }\<newline>'',
    ''\<newline>'',
    ''        .variant-secondary {\<newline>'',
    ''          background-color: var(--secondary-bg);\<newline>'',
    ''          color: var(--secondary-color);\<newline>'',
    ''          border-color: var(--secondary-bg);\<newline>'',
    ''        }\<newline>'',
    ''\<newline>'',
    ''        .variant-secondary:hover:not(.disabled):not(.loading) {\<newline>'',
    ''          background-color: var(--secondary-hover-bg);\<newline>'',
    ''          border-color: var(--secondary-hover-bg);\<newline>'',
    ''          transform: translateY(-1px);\<newline>'',
    ''        }\<newline>'',
    ''\<newline>'',
    ''        .variant-secondary:active:not(.disabled):not(.loading) {\<newline>'',
    ''          background-color: var(--secondary-active-bg);\<newline>'',
    ''          border-color: var(--secondary-active-bg);\<newline>'',
    ''          transform: translateY(0);\<newline>'',
    ''        }\<newline>'',
    ''\<newline>'',
    ''        .variant-outlined {\<newline>'',
    ''          background-color: var(--outlined-bg);\<newline>'',
    ''          color: var(--outlined-color);\<newline>'',
    ''          border: var(--outlined-border);\<newline>'',
    ''        }\<newline>'',
    ''\<newline>'',
    ''        .variant-outlined:hover:not(.disabled):not(.loading) {\<newline>'',
    ''          background-color: var(--outlined-hover-bg);\<newline>'',
    ''          color: var(--outlined-hover-color);\<newline>'',
    ''          transform: translateY(-1px);\<newline>'',
    ''        }\<newline>'',
    ''\<newline>'',
    ''        .variant-outlined:active:not(.disabled):not(.loading) {\<newline>'',
    ''          background-color: var(--primary-active-bg);\<newline>'',
    ''          color: var(--outlined-hover-color);\<newline>'',
    ''          transform: translateY(0);\<newline>'',
    ''        }\<newline>'',
    ''\<newline>'',
    ''        .variant-ghost {\<newline>'',
    ''          background-color: var(--ghost-bg);\<newline>'',
    ''          color: var(--ghost-color);\<newline>'',
    ''          border-color: transparent;\<newline>'',
    ''        }\<newline>'',
    ''\<newline>'',
    ''        .variant-ghost:hover:not(.disabled):not(.loading) {\<newline>'',
    ''          background-color: var(--ghost-hover-bg);\<newline>'',
    ''          transform: translateY(-1px);\<newline>'',
    ''        }\<newline>'',
    ''\<newline>'',
    ''        .variant-ghost:active:not(.disabled):not(.loading) {\<newline>'',
    ''          background-color: var(--ghost-active-bg);\<newline>'',
    ''          transform: translateY(0);\<newline>'',
    ''        }\<newline>'',
    ''\<newline>'',
    ''        .variant-glow {\<newline>'',
    ''          background-color: var(--primary-bg);\<newline>'',
    ''          color: var(--primary-color);\<newline>'',
    ''          border-color: var(--primary-bg);\<newline>'',
    ''          box-shadow: 0 0 20px rgba(37, 99, 235, 0.5);\<newline>'',
    ''        }\<newline>'',
    ''\<newline>'',
    ''        .variant-glow:hover:not(.disabled):not(.loading) {\<newline>'',
    ''          background-color: var(--primary-hover-bg);\<newline>'',
    ''          border-color: var(--primary-hover-bg);\<newline>'',
    ''          box-shadow: 0 0 30px rgba(37, 99, 235, 0.8);\<newline>'',
    ''          transform: translateY(-1px);\<newline>'',
    ''        }\<newline>'',
    ''\<newline>'',
    ''        .variant-glow:active:not(.disabled):not(.loading) {\<newline>'',
    ''          background-color: var(--primary-active-bg);\<newline>'',
    ''          border-color: var(--primary-active-bg);\<newline>'',
    ''          transform: translateY(0);\<newline>'',
    ''        }\<newline>'',
    ''\<newline>'',
    ''        .variant-link {\<newline>'',
    ''          background-color: var(--link-bg);\<newline>'',
    ''          color: var(--link-color);\<newline>'',
    ''          border: none;\<newline>'',
    ''          box-shadow: none;\<newline>'',
    ''          padding: 0;\<newline>'',
    ''          min-height: auto;\<newline>'',
    ''          text-decoration: underline;\<newline>'',
    ''        }\<newline>'',
    ''\<newline>'',
    ''        .variant-link:hover:not(.disabled):not(.loading) {\<newline>'',
    ''          color: var(--link-hover-color);\<newline>'',
    ''          transform: none;\<newline>'',
    ''        }\<newline>'',
    ''\<newline>'',
    ''        .variant-link:active:not(.disabled):not(.loading) {\<newline>'',
    ''          color: var(--primary-active-bg);\<newline>'',
    ''          transform: none;\<newline>'',
    ''        }\<newline>'',
    ''\<newline>'',
    ''        .variant-icon-btn {\<newline>'',
    ''          padding: 0.5rem;\<newline>'',
    ''          aspect-ratio: 1;\<newline>'',
    ''          border-radius: 50%;\<newline>'',
    ''          background-color: var(--primary-bg);\<newline>'',
    ''          color: var(--primary-color);\<newline>'',
    ''        }\<newline>'',
    ''\<newline>'',
    ''        .variant-icon-btn.size-small {\<newline>'',
    ''          padding: 0.375rem;\<newline>'',
    ''        }\<newline>'',
    ''\<newline>'',
    ''        .variant-icon-btn.size-large {\<newline>'',
    ''          padding: 0.75rem;\<newline>'',
    ''        }\<newline>'',
    ''\<newline>'',
    ''        .variant-icon-btn:hover:not(.disabled):not(.loading) {\<newline>'',
    ''          background-color: var(--primary-hover-bg);\<newline>'',
    ''          transform: translateY(-1px);\<newline>'',
    ''        }\<newline>'',
    ''\<newline>'',
    ''        .variant-icon-btn:active:not(.disabled):not(.loading) {\<newline>'',
    ''          background-color: var(--primary-active-bg);\<newline>'',
    ''          transform: translateY(0);\<newline>'',
    ''        }\<newline>'',
    ''\<newline>'',
    ''        /* Custom glow effect */\<newline>'',
    ''        ''
  ]\<close>

definition style_rules_states :: string where
  \<open>style_rules_states = concat [
    ''\<newline>'',
    ''\<newline>'',
    ''        .btn:focus-visible {\<newline>'',
    ''          outline: 2px solid currentColor;\<newline>'',
    ''          outline-offset: 2px;\<newline>'',
    ''        }\<newline>'',
    ''\<newline>'',
    ''        .btn.disabled,\<newline>'',
    ''        .btn.loading {\<newline>'',
    ''          opacity: 0.6;\<newline>'',
    ''          cursor: not-allowed;\<newline>'',
    ''          pointer-events: none;\<newline>'',
    ''          transform: none !important;\<newline>'',
    ''        }\<newline>'',
    ''\<newline>'',
    ''        /* Loading state */\<newline>'',
    ''        .loading-spinner {\<newline>'',
    ''          width: 1em;\<newline>'',
    ''          height: 1em;\<newline>'',
    ''          border: 2px solid transparent;\<newline>'',
    ''          border-top: 2px solid currentColor;\<newline>'',
    ''          border-radius: 50%;\<newline>'',
    ''          animation: spin 1s linear infinite;\<newline>'',
    ''        }\<newline>'',
    ''\<newline>'',
    ''        @keyframes spin {\<newline>'',
    ''          to { transform: rotate(360deg); }\<newline>'',
    ''        }\<newline>'',
    ''\<newline>'',
    ''        /* Ripple effect */\<newline>'',
    ''        .ripple {\<newline>'',
    ''          position: absolute;\<newline>'',
    ''          border-radius: 50%;\<newline>'',
    ''          background-color: rgba(255, 255, 255, 0.4);\<newline>'',
    ''          transform: scale(0);\<newline>'',
    ''          animation: ripple-animation 0.6s ease-out;\<newline>'',
    ''          pointer-events: none;\<newline>'',
    ''          z-index: 1;\<newline>'',
    ''        }\<newline>'',
    ''\<newline>'',
    ''        @keyframes ripple-animation {\<newline>'',
    ''          to { \<newline>'',
    ''            transform: scale(4); \<newline>'',
    ''            opacity: 0; \<newline>'',
    ''          }\<newline>'',
    ''        }\<newline>'',
    ''\<newline>'',
    ''        /* Slot styles */\<newline>'',
    ''        ::slotted(svg),\<newline>'',
    ''        ::slotted(i),\<newline>'',
    ''        ::slotted(.icon) {\<newline>'',
    ''          width: 1em;\<newline>'',
    ''          height: 1em;\<newline>'',
    ''          flex-shrink: 0;\<newline>'',
    ''        }\<newline>'',
    ''\<newline>'',
    ''        .btn-content {\<newline>'',
    ''          display: inline-flex;\<newline>'',
    ''          align-items: center;\<newline>'',
    ''          gap: 0.5rem;\<newline>'',
    ''          z-index: 2;\<newline>'',
    ''          position: relative;\<newline>'',
    ''        }\<newline>'',
    ''      </style>\<newline>'',
    ''\<newline>'',
    ''      <''
  ]\<close>

text \<open>The template literal that \<^verbatim>\<open>render\<close> assigns to \<^verbatim>\<open>shadowRoot.innerHTML\<close>.\<close>

definition shadow_markup :: "string \<Rightarrow> lume_button \<Rightarrow> string" where
  \<open>shadow_markup instId s =
     (let isLink = truthy (get_href s);
          isDisabled = (get_disabled s \<or> get_loading s);
          elementType = (if isLink then ''a'' else ''button'');
          inlineStyles = generateInlineStyles s
      in
        ''\<newline>'' @ ''      <style>\<newline>'' @ ''        :host {\<newline>'' @ ''          display: '' @
        (if get_fullWidth s then ''block'' else ''inline-block'') @
        style_rules_variants @
        glowEffect s @
        ''\<newline>'' @ ''\<newline>'' @
        ''        /* Custom hover and active styles with proper specificity */\<newline>'' @ ''        '' @
        customHoverActiveStyles instId s @
        style_rules_states @
        elementType @
        ''\<newline>'' @ ''        class="btn '' @
        instId @
        '' variant-'' @
        get_variant s @
        '' size-'' @
        get_size s @
        '' '' @
        (if isDisabled then ''disabled'' else []) @
        '' '' @
        (if get_loading s then ''loading'' else []) @
        ''"\<newline>'' @ ''        '' @
        (if \<not> isLink then ''type="button"'' else []) @
        ''\<newline>'' @ ''        '' @
        (if isLink then ''href="'' @ or_else (get_href s) [] @ ''"'' else []) @
        ''\<newline>'' @ ''        '' @
        (if isLink then ''target="'' @ get_target s @ ''"'' else []) @
        ''\<newline>'' @ ''        '' @
        (if isDisabled then ''disabled'' else []) @
        ''\<newline>'' @ ''        '' @
        (if isLink then [] else ''aria-disabled="'' @ ToString (JBool isDisabled) @ ''"'') @
        ''\<newline>'' @ ''        tabindex="'' @
        (if isDisabled then ''-1'' else ''0'') @
        ''"\<newline>'' @ ''        role="'' @
        (if isLink then ''link'' else ''button'') @
        ''"\<newline>'' @ ''        '' @
        (if get_loading s then ''aria-busy="true"'' else []) @
        ''\<newline>'' @ ''        '' @
        (if get_loading s then ''aria-live="polite"'' else []) @
        ''\<newline>'' @ ''        '' @
        (if inlineStyles \<noteq> [] then ''style="'' @ inlineStyles @ ''"'' else []) @
        ''\<newline>'' @ ''      >\<newline>'' @ ''        <span class="btn-content">\<newline>'' @ ''          '' @
        (if get_loading s then ''<span class="loading-spinner" aria-hidden="true"></span>'' else []) @
        ''\<newline>'' @ ''          <slot></slot>\<newline>'' @ ''        </span>\<newline>'' @ ''      </'' @
        elementType @
        ''>\<newline>'' @ ''    '')\<close>

text \<open>
  Listener registration on a \<^verbatim>\<open>.btn\<close> element of the store. The DOM ignores a listener that
  is already registered, and removing one that is not there does nothing.
\<close>

definition addEventListener :: "nat \<Rightarrow> nat \<Rightarrow> lume_button \<Rightarrow> lume_button" where
  "addEventListener b h s =
     (case btns s b of
        None \<Rightarrow> s
      | Some e \<Rightarrow>
          if h \<in> set (click_listeners e) then s
          else s\<lparr>btns := (btns s)(b \<mapsto> e\<lparr>click_listeners := click_listeners e @ [h]\<rparr>)\<rparr>)"

definition removeEventListener :: "nat \<Rightarrow> nat \<Rightarrow> lume_button \<Rightarrow> lume_button" where
  "removeEventListener b h s =
     (case btns s b of
        None \<Rightarrow> s
      | Some e \<Rightarrow> s\<lparr>btns := (btns s)(b \<mapsto> e\<lparr>click_listeners := remove1 h (click_listeners e)\<rparr>)\<rparr>)"

text \<open>
  \<^verbatim>\<open>setupRippleEffect\<close>: \<^verbatim>\<open>_rippleCleanup\<close> is the closure over the element and the handler
  it was made for, kept as that pair; the new handler is a fresh closure.
\<close>

definition setupRippleEffect :: "lume_button \<Rightarrow> lume_button" where
  "setupRippleEffect s =
     (case shadow_btn s of
        None \<Rightarrow> s
      | Some btn \<Rightarrow>
          if \<not> get_disabled s \<and> \<not> get_loading s then
            let s1 = (case rippleCleanup s of
                        None \<Rightarrow> s
                      | Some (b, h) \<Rightarrow> removeEventListener b h s);
                rippleHandler = next_node s1;
                s2 = addEventListener btn rippleHandler (s1\<lparr>next_node := Suc rippleHandler\<rparr>)
            in s2\<lparr>rippleCleanup := Some (btn, rippleHandler)\<rparr>
          else s)"

text \<open>
  \<^verbatim>\<open>render\<close>: the assignment to \<^verbatim>\<open>innerHTML\<close> replaces the whole shadow tree, so the \<^verbatim>\<open>.btn\<close>
  element found afterwards is a new one, without listeners or children.
\<close>

definition render :: "lume_button \<Rightarrow> lume_button" where
  "render s0 =
     (let (instId, s) = getInstanceId s0;
          b = next_node s
      in setupRippleEffect
           (s\<lparr>shadow_html := shadow_markup instId s,
              shadow_btn := Some b,
              btns := (btns s)(b \<mapsto> \<lparr>click_listeners = [], children = []\<rparr>),
              next_node := Suc b\<rparr>))"

section \<open>Attribute mutation and property setters\<close>

definition attributeChangedCallback :: "string \<Rightarrow> string option \<Rightarrow> string option \<Rightarrow> lume_button \<Rightarrow> lume_button" where
  "attributeChangedCallback name oldValue newValue s =
     (if initialized s \<and> oldValue \<noteq> newValue then render s else s)"

text \<open>
  The platform's \<^verbatim>\<open>setAttribute\<close> and \<^verbatim>\<open>removeAttribute\<close>: the reaction runs for observed
  names, on every set (also of an equal value) and on the removal of a present attribute.
\<close>

definition setAttribute :: "string \<Rightarrow> string \<Rightarrow> lume_button \<Rightarrow> lume_button" where
  "setAttribute name v s =
     (let oldValue = attrs s name;
          s1 = s\<lparr>attrs := (attrs s)(name \<mapsto> v)\<rparr>
      in if name \<in> set observedAttributes
         then attributeChangedCallback name oldValue (Some v) s1 else s1)"

definition removeAttribute :: "string \<Rightarrow> lume_button \<Rightarrow> lume_button" where
  "removeAttribute name s =
     (case attrs s name of
        None \<Rightarrow> s
      | Some oldValue \<Rightarrow>
          let s1 = s\<lparr>attrs := (attrs s)(name := None)\<rparr>
          in if name \<in> set observedAttributes
             then attributeChangedCallback name (Some oldValue) None s1 else s1)"

definition set_variant :: "jsval \<Rightarrow> lume_button \<Rightarrow> lume_button" where
  "set_variant v s = setAttribute ''variant'' (ToString v) s"

definition set_size :: "jsval \<Rightarrow> lume_button \<Rightarrow> lume_button" where
  "set_size v s = setAttribute ''size'' (ToString v) s"

definition set_disabled :: "jsval \<Rightarrow> lume_button \<Rightarrow> lume_button" where
  "set_disabled v s =
     (if ToBoolean v then setAttribute ''disabled'' [] s else removeAttribute ''disabled'' s)"

definition set_loading :: "jsval \<Rightarrow> lume_button \<Rightarrow> lume_button" where
  "set_loading v s =
     (if ToBoolean v then setAttribute ''loading'' [] s else removeAttribute ''loading'' s)"

definition set_href :: "jsval \<Rightarrow> lume_button \<Rightarrow> lume_button" where
  "set_href v s =
     (if ToBoolean v then setAttribute ''href'' (ToString v) s else removeAttribute ''href'' s)"

section \<open>Absorbing properties set before the upgrade\<close>

text \<open>
  The accessors the class body declares, by property name. Five have a setter; the others
  are read-only. The hyphenated attribute names are no property of the class at all.
\<close>

definition class_getters :: "string list" where
  "class_getters =
     [''variant'', ''size'', ''disabled'', ''loading'', ''fullWidth'', ''href'', ''target'',
      ''color'', ''bgColor'', ''hoverColor'', ''hoverBgColor'', ''activeColor'',
      ''activeBgColor'', ''border'', ''radius'', ''padding'', ''fontSize'', ''fontWeight'',
      ''width'', ''height'', ''glowColor'', ''shadow'', ''onclickHandler'']"

definition class_setter :: "string \<Rightarrow> (jsval \<Rightarrow> lume_button \<Rightarrow> lume_button) option" where
  "class_setter prop =
     (if prop = ''variant'' then Some set_variant
      else if prop = ''size'' then Some set_size
      else if prop = ''disabled'' then Some set_disabled
      else if prop = ''loading'' then Some set_loading
      else if prop = ''href'' then Some set_href
      else None)"

text \<open>
  The assignment \<^verbatim>\<open>this[prop] = value\<close> in the strict code of a class body: an own data
  property is overwritten; otherwise an accessor of the class decides (its setter runs, or
  the assignment throws when there is a getter only); otherwise a new own data property
  is created. No observed attribute name is a member of \<^verbatim>\<open>HTMLElement\<close>.
\<close>

definition assign_property :: "string \<Rightarrow> jsval \<Rightarrow> lume_button \<Rightarrow> lume_button completion" where
  "assign_property prop v s =
     (if own s prop \<noteq> None then Returned (s\<lparr>own := (own s)(prop \<mapsto> v)\<rparr>)
      else
        case class_setter prop of
          Some setter \<Rightarrow> Returned (setter v s)
        | None \<Rightarrow>
            if prop \<in> set class_getters
            then Threw (TypeError (''Cannot set property '' @ prop @ '' which has only a getter'')) s
            else Returned (s\<lparr>own := (own s)(prop \<mapsto> v)\<rparr>))"

text \<open>The body of the \<^verbatim>\<open>forEach\<close> callback of \<^verbatim>\<open>_upgradeProperties\<close>.\<close>

definition upgradeProperty :: "string \<Rightarrow> lume_button \<Rightarrow> lume_button completion" where
  "upgradeProperty prop s =
     (case own s prop of
        None \<Rightarrow> Returned s
      | Some v \<Rightarrow> assign_property prop v (s\<lparr>own := (own s)(prop := None)\<rparr>))"

fun forEach :: "('a \<Rightarrow> 's \<Rightarrow> 's completion) \<Rightarrow> 'a list \<Rightarrow> 's \<Rightarrow> 's completion" where
  "forEach f [] s = Returned s"
| "forEach f (x # xs) s =
     (case f x s of Returned s' \<Rightarrow> forEach f xs s' | Threw e s' \<Rightarrow> Threw e s')"

definition upgradeProperties :: "lume_button \<Rightarrow> lume_button completion" where
  "upgradeProperties s = forEach upgradeProperty observedAttributes s"

section \<open>Life cycle\<close>

definition setupEventListeners :: "lume_button \<Rightarrow> lume_button" where
  "setupEventListeners s = s\<lparr>click_bound := True, keydown_bound := True\<rparr>"

definition removeEventListeners :: "lume_button \<Rightarrow> lume_button" where
  "removeEventListeners s =
     (let s1 = s\<lparr>click_bound := False, keydown_bound := False\<rparr>
      in case rippleCleanup s1 of
           None \<Rightarrow> s1
         | Some (b, h) \<Rightarrow> (removeEventListener b h s1)\<lparr>rippleCleanup := None\<rparr>)"

definition connectedCallback :: "lume_button \<Rightarrow> lume_button completion" where
  "connectedCallback s =
     bind_completion (upgradeProperties s)
       (\<lambda>s1. Returned ((setupEventListeners (render s1))\<lparr>initialized := True\<rparr>))"

definition disconnectedCallback :: "lume_button \<Rightarrow> lume_button" where
  "disconnectedCallback s = removeEventListeners s"

section \<open>Activation\<close>

text \<open>
  What \<^verbatim>\<open>new Function("event", "button", body)\<close> gives for a body is the host's business:
  it throws (a syntax error) or yields a callable, which may change the event and the
  instance in any way and returns or throws.
\<close>

type_synonym callable = "event \<Rightarrow> lume_button \<Rightarrow> (event \<times> lume_button) completion"

type_synonym function_ctor = "string \<Rightarrow> js_error + callable"

definition log_effect :: "effect \<Rightarrow> lume_button \<Rightarrow> lume_button" where
  "log_effect x s = s\<lparr>effects := effects s @ [x]\<rparr>"

text \<open>The body of the \<^verbatim>\<open>try\<close> block of \<^verbatim>\<open>handleClick\<close>.\<close>

definition call_onclick_handler :: "function_ctor \<Rightarrow> string \<Rightarrow> event \<Rightarrow> lume_button \<Rightarrow> (event \<times> lume_button) completion" where
  "call_onclick_handler new_Function body ev s =
     (let s1 = log_effect (NewFunction body) s
      in case new_Function body of
           Inl err \<Rightarrow> Threw err (ev, s1)
         | Inr handler \<Rightarrow> handler ev (log_effect HandlerCall s1))"

definition run_custom_action :: "function_ctor \<Rightarrow> event \<Rightarrow> lume_button \<Rightarrow> (event \<times> lume_button) completion" where
  "run_custom_action new_Function ev s =
     (case get_onclickHandler s of
        None \<Rightarrow> Returned (ev, s)
      | Some body \<Rightarrow>
          if body = [] then Returned (ev, s)
          else
            try_catch (call_onclick_handler new_Function body ev s)
              (\<lambda>error (ev', s').
                 Returned (ev', log_effect (ConsoleError ''Error executing onclick handler:'' error) s')))"

definition navigate :: "event \<Rightarrow> lume_button \<Rightarrow> (event \<times> lume_button) completion" where
  "navigate ev s =
     (case get_href s of
        None \<Rightarrow> Returned (ev, s)
      | Some href \<Rightarrow>
          if href \<noteq> [] \<and> \<not> defaultPrevented ev then
            if get_target s = ''_blank''
            then Returned (preventDefault ev, log_effect (WindowOpen href ''_blank'' ''noopener,noreferrer'') s)
            else Returned (preventDefault ev, log_effect (LocationAssign href) s)
          else Returned (ev, s))"

definition lume_click :: "event \<Rightarrow> lume_button \<Rightarrow> custom_event" where
  "lume_click ev s =
     \<lparr>event_type = ''lume-click'', bubbles = True, composed = True,
      detail_originalEvent = ev, detail_href = get_href s,
      detail_variant = get_variant s, detail_size = get_size s\<rparr>"

definition dispatch_lume_click :: "event \<Rightarrow> lume_button \<Rightarrow> (event \<times> lume_button) completion" where
  "dispatch_lume_click ev s = Returned (ev, log_effect (DispatchEvent (lume_click ev s)) s)"

definition handleClick :: "function_ctor \<Rightarrow> event \<Rightarrow> lume_button \<Rightarrow> (event \<times> lume_button) completion" where
  "handleClick new_Function event s =
     (if get_disabled s \<or> get_loading s then
        Returned (stopPropagation (preventDefault event), s)
      else
        bind_completion (run_custom_action new_Function event s)
          (\<lambda>(ev1, s1).
             bind_completion (navigate ev1 s1)
               (\<lambda>(ev2, s2). dispatch_lume_click ev2 s2)))"

definition handleKeydown :: "function_ctor \<Rightarrow> event \<Rightarrow> lume_button \<Rightarrow> (event \<times> lume_button) completion" where
  "handleKeydown new_Function event s =
     (if (key event = Some ''Enter'' \<or> key event = Some '' '') \<and> \<not> get_disabled s \<and> \<not> get_loading s
      then handleClick new_Function (preventDefault event) s
      else Returned (event, s))"

section \<open>The ripple\<close>

text \<open>
  The numbers of \<^verbatim>\<open>createRipple\<close> are the host's doubles. Their operations are taken as
  given: \<^verbatim>\<open>Math.max\<close>, subtraction, division, the literal \<^verbatim>\<open>2\<close> and the conversion to a string
  that \<^verbatim>\<open>size + "px"\<close> performs. The bounds of an element come from the layout engine.
\<close>

record 'n num_ops =
  Math_max :: "'n \<Rightarrow> 'n \<Rightarrow> 'n"
  num_minus :: "'n \<Rightarrow> 'n \<Rightarrow> 'n"
  num_divide :: "'n \<Rightarrow> 'n \<Rightarrow> 'n"
  num_2 :: 'n
  num_to_string :: "'n \<Rightarrow> string"

record 'n dom_rect =
  rect_left :: 'n
  rect_top :: 'n
  rect_width :: 'n
  rect_height :: 'n

record 'n mouse_event =
  currentTarget :: nat
  clientX :: 'n
  clientY :: 'n

definition appendChild :: "nat \<Rightarrow> nat \<Rightarrow> ripple_elem \<Rightarrow> lume_button \<Rightarrow> lume_button" where
  "appendChild parent rid ripple s =
     s\<lparr>ripples := (ripples s)(rid \<mapsto> ripple\<lparr>parentNode := Some parent\<rparr>),
        btns := (case btns s parent of
                   None \<Rightarrow> btns s
                 | Some e \<Rightarrow> (btns s)(parent \<mapsto> e\<lparr>children := children e @ [rid]\<rparr>))\<rparr>"

definition setTimeout :: "nat \<Rightarrow> nat \<Rightarrow> lume_button \<Rightarrow> lume_button" where
  "setTimeout rid ms s = s\<lparr>timers := timers s @ [\<lparr>delay_ms = ms, captured_ripple = rid\<rparr>]\<rparr>"

definition createRipple :: "'n num_ops \<Rightarrow> (nat \<Rightarrow> 'n dom_rect) \<Rightarrow> 'n mouse_event \<Rightarrow> lume_button \<Rightarrow> lume_button" where
  "createRipple ops getBoundingClientRect event s =
     (if get_disabled s \<or> get_loading s \<or> get_variant s = ''link'' then s
      else
        let button = currentTarget event;
            rect = getBoundingClientRect button;
            size = Math_max ops (rect_width rect) (rect_height rect);
            x = num_minus ops (num_minus ops (clientX event) (rect_left rect))
                  (num_divide ops size (num_2 ops));
            y = num_minus ops (num_minus ops (clientY event) (rect_top rect))
                  (num_divide ops size (num_2 ops));
            rid = next_node s;
            ripple = \<lparr>classList = [''ripple''],
                      style_width = num_to_string ops size @ ''px'',
                      style_height = num_to_string ops size @ ''px'',
                      style_left = num_to_string ops x @ ''px'',
                      style_top = num_to_string ops y @ ''px'',
                      parentNode = None\<rparr>
        in setTimeout rid 600 (appendChild button rid ripple (s\<lparr>next_node := Suc rid\<rparr>)))"

text \<open>
  The closure handed to \<^verbatim>\<open>setTimeout\<close>: \<^verbatim>\<open>if (ripple.parentNode) ripple.remove()\<close>.
\<close>

definition ripple_timeout :: "nat \<Rightarrow> lume_button \<Rightarrow> lume_button" where
  "ripple_timeout rid s =
     (case ripples s rid of
        None \<Rightarrow> s
      | Some r \<Rightarrow>
          (case parentNode r of
             None \<Rightarrow> s
           | Some p \<Rightarrow>
               s\<lparr>ripples := (ripples s)(rid \<mapsto> r\<lparr>parentNode := None\<rparr>),
                  btns := (case btns s p of
                             None \<Rightarrow> btns s
                           | Some e \<Rightarrow> (btns s)(p \<mapsto> e\<lparr>children := remove1 rid (children e)\<rparr>))\<rparr>))"

text \<open>
  A click delivered to the rendered \<^verbatim>\<open>.btn\<close> element runs each of its click listeners once;
  every listener is a closure \<^verbatim>\<open>(event) => this.createRipple(event)\<close>.
\<close>

definition btn_click :: "'n num_ops \<Rightarrow> (nat \<Rightarrow> 'n dom_rect) \<Rightarrow> 'n \<Rightarrow> 'n \<Rightarrow> lume_button \<Rightarrow> lume_button" where
  "btn_click ops getBoundingClientRect cx cy s =
     (case shadow_btn s of
        None \<Rightarrow> s
      | Some b \<Rightarrow>
          (case btns s b of
             None \<Rightarrow> s
           | Some e \<Rightarrow>
               fold (\<lambda>h. createRipple ops getBoundingClientRect
                            \<lparr>currentTarget = b, clientX = cx, clientY = cy\<rparr>)
                    (click_listeners e) s))"

definition overlays :: "lume_button \<Rightarrow> nat list" where
  "overlays s =
     (case shadow_btn s of
        None \<Rightarrow> []
      | Some b \<Rightarrow> (case btns s b of None \<Rightarrow> [] | Some e \<Rightarrow> children e))"

definition ripple_listeners :: "lume_button \<Rightarrow> nat list" where
  "ripple_listeners s =
     (case shadow_btn s of
        None \<Rightarrow> []
      | Some b \<Rightarrow> (case btns s b of None \<Rightarrow> [] | Some e \<Rightarrow> click_listeners e))"

section \<open>Validation\<close>

definition validate :: "lume_button \<Rightarrow> string list" where
  "validate s =
     (if get_disabled s \<and> get_loading s
      then [''Button cannot be both disabled and loading''] else [])"

section \<open>Rendering and listener bookkeeping leave the attribute bag alone\<close>

lemma attrs_getInstanceId: "attrs (snd (getInstanceId s)) = attrs s"
  by (simp add: getInstanceId_def Let_def split: option.splits)

lemma next_node_getInstanceId: "next_node (snd (getInstanceId s)) = next_node s"
  by (simp add: getInstanceId_def Let_def split: option.splits)

lemma gating_getInstanceId:
  "get_disabled (snd (getInstanceId s)) = get_disabled s"
  "get_loading (snd (getInstanceId s)) = get_loading s"
  by (simp_all add: get_disabled_def get_loading_def hasAttribute_def attrs_getInstanceId)

lemma attrs_addEventListener: "attrs (addEventListener b h s) = attrs s"
  by (simp add: addEventListener_def split: option.splits)

lemma attrs_removeEventListener: "attrs (removeEventListener b h s) = attrs s"
  by (simp add: removeEventListener_def split: option.splits)

lemma attrs_setupRippleEffect: "attrs (setupRippleEffect s) = attrs s"
  by (simp add: setupRippleEffect_def Let_def attrs_addEventListener attrs_removeEventListener
        split: option.splits prod.splits)

lemma attrs_render: "attrs (render s) = attrs s"
proof -
  obtain i t where g: "getInstanceId s = (i, t)" by (cases "getInstanceId s")
  then have "attrs t = attrs s" using attrs_getInstanceId [of s] by simp
  then show ?thesis by (simp add: render_def g Let_def attrs_setupRippleEffect)
qed

lemma getters_render:
  "get_disabled (render s) = get_disabled s"
  "get_loading (render s) = get_loading s"
  "get_variant (render s) = get_variant s"
  by (simp_all add: get_disabled_def get_loading_def get_variant_def hasAttribute_def
        getAttribute_def attrs_render)

lemma attrs_setAttribute: "attrs (setAttribute name v s) = (attrs s)(name \<mapsto> v)"
  by (simp add: setAttribute_def Let_def attributeChangedCallback_def attrs_render)

lemma attrs_removeAttribute: "attrs (removeAttribute name s) = (attrs s)(name := None)"
  by (cases "attrs s name")
     (auto simp add: removeAttribute_def Let_def attributeChangedCallback_def attrs_render)

lemma shadow_addEventListener:
  "shadow_html (addEventListener b h s) = shadow_html s"
  "shadow_btn (addEventListener b h s) = shadow_btn s"
  "instanceId (addEventListener b h s) = instanceId s"
  by (simp_all add: addEventListener_def split: option.splits)

lemma shadow_removeEventListener:
  "shadow_html (removeEventListener b h s) = shadow_html s"
  "shadow_btn (removeEventListener b h s) = shadow_btn s"
  "instanceId (removeEventListener b h s) = instanceId s"
  by (simp_all add: removeEventListener_def split: option.splits)

lemma shadow_setupRippleEffect:
  "shadow_html (setupRippleEffect s) = shadow_html s"
  "shadow_btn (setupRippleEffect s) = shadow_btn s"
  "instanceId (setupRippleEffect s) = instanceId s"
  by (simp_all add: setupRippleEffect_def Let_def shadow_addEventListener
        shadow_removeEventListener split: option.splits prod.splits)

lemma render_shadow:
  "shadow_html (render s) = shadow_markup (fst (getInstanceId s)) (snd (getInstanceId s))"
  "shadow_btn (render s) = Some (next_node (snd (getInstanceId s)))"
  "instanceId (render s) = instanceId (snd (getInstanceId s))"
  by (simp_all add: render_def Let_def shadow_setupRippleEffect split: prod.splits)

lemma shadow_markup_nonempty: "shadow_markup i s \<noteq> []"
  by (simp add: shadow_markup_def Let_def)

section \<open>Gated activation\<close>

text \<open>
  C1, as the code has it. While \<^verbatim>\<open>disabled\<close> or \<^verbatim>\<open>loading\<close> is set, \<^verbatim>\<open>handleClick\<close> returns the
  instance unchanged (so nothing was constructed, called, opened, navigated or dispatched:
  the trace of outside calls is part of the instance) and hands back the event after
  \<^verbatim>\<open>preventDefault\<close> and \<^verbatim>\<open>stopPropagation\<close>. The keyboard listener, which tests the gate
  itself, does nothing at all for a gated instance: it leaves the key event as it came.
\<close>

theorem gated_activation_suppressed:
  assumes "get_disabled s \<or> get_loading s"
  shows "handleClick new_Function ev s = Returned (stopPropagation (preventDefault ev), s) \<and>
         propagationStopped (stopPropagation (preventDefault ev)) \<and>
         defaultPrevented (stopPropagation (preventDefault ev)) = (defaultPrevented ev \<or> cancelable ev) \<and>
         handleKeydown new_Function ev s = Returned (ev, s)"
  using assms
  by (auto simp add: handleClick_def handleKeydown_def stopPropagation_def preventDefault_def)

theorem gated_activation_suppressed_witness:
  "handleClick (\<lambda>body. Inl (SyntaxError body))
     \<lparr>key = None, cancelable = True, defaultPrevented = False, propagationStopped = False\<rparr>
     (construct [''loading'' \<mapsto> [], ''href'' \<mapsto> ''/a'', ''onclick-handler'' \<mapsto> ''go()''] Map.empty (\<lambda>n. []))
   = Returned
       (\<lparr>key = None, cancelable = True, defaultPrevented = True, propagationStopped = True\<rparr>,
        construct [''loading'' \<mapsto> [], ''href'' \<mapsto> ''/a'', ''onclick-handler'' \<mapsto> ''go()''] Map.empty (\<lambda>n. [])) \<and>
   effects (construct [''loading'' \<mapsto> [], ''href'' \<mapsto> ''/a'', ''onclick-handler'' \<mapsto> ''go()''] Map.empty (\<lambda>n. [])) = []"
  using gated_activation_suppressed
    [of "construct [''loading'' \<mapsto> [], ''href'' \<mapsto> ''/a'', ''onclick-handler'' \<mapsto> ''go()''] Map.empty (\<lambda>n. [])"
        "\<lambda>body. Inl (SyntaxError body)"
        "\<lparr>key = None, cancelable = True, defaultPrevented = False, propagationStopped = False\<rparr>"]
  by (simp add: get_loading_def get_disabled_def hasAttribute_def construct_def
        stopPropagation_def preventDefault_def)

text \<open>
  C1 as stated fails on the keyboard path: the Enter key on a disabled instance comes back
  from \<^verbatim>\<open>handleKeydown\<close> with its default not prevented and its propagation not stopped.
\<close>

theorem gated_keydown_not_suppressed:
  "handleKeydown (\<lambda>body. Inl (SyntaxError body))
     \<lparr>key = Some ''Enter'', cancelable = True, defaultPrevented = False, propagationStopped = False\<rparr>
     (construct [''disabled'' \<mapsto> []] Map.empty (\<lambda>n. []))
   = Returned
       (\<lparr>key = Some ''Enter'', cancelable = True, defaultPrevented = False, propagationStopped = False\<rparr>,
        construct [''disabled'' \<mapsto> []] Map.empty (\<lambda>n. []))"
  by (simp add: handleKeydown_def get_disabled_def hasAttribute_def construct_def)

section \<open>Error isolation of the custom action\<close>

lemma run_custom_action_returns: "\<exists>r. run_custom_action new_Function ev s = Returned r"
  by (auto simp add: run_custom_action_def try_catch_def split: option.splits completion.splits)

lemma run_custom_action_none:
  "\<not> truthy (get_onclickHandler s) \<Longrightarrow> run_custom_action new_Function ev s = Returned (ev, s)"
  by (auto simp add: run_custom_action_def truthy_def split: option.splits)

lemma run_custom_action_caught:
  assumes "get_onclickHandler s = Some body" "body \<noteq> []"
    and "call_onclick_handler new_Function body ev s = Threw e (ev', s')"
  shows "run_custom_action new_Function ev s =
           Returned (ev', log_effect (ConsoleError ''Error executing onclick handler:'' e) s')"
  using assms by (simp add: run_custom_action_def try_catch_def)

lemma navigate_returns: "\<exists>r. navigate ev s = Returned r"
  by (auto simp add: navigate_def split: option.splits)

lemma effects_navigate:
  assumes "navigate ev s = Returned (ev2, s2)"
  shows "\<exists>nav. effects s2 = effects s @ nav"
  using assms by (auto simp add: navigate_def log_effect_def split: option.splits if_splits)

lemma handleClick_ungated:
  assumes "\<not> get_disabled s" "\<not> get_loading s"
    and "run_custom_action new_Function ev s = Returned (ev1, s1)"
    and "navigate ev1 s1 = Returned (ev2, s2)"
  shows "handleClick new_Function ev s =
           Returned (ev2, log_effect (DispatchEvent (lume_click ev2 s2)) s2)"
  using assms by (simp add: handleClick_def bind_completion_def dispatch_lume_click_def)

text \<open>
  C2. An ungated activation with a custom action whose \<^verbatim>\<open>try\<close> block throws, be it the
  \<^verbatim>\<open>Function\<close> constructor or the call of what it built: \<^verbatim>\<open>handleClick\<close> still returns
  normally. From the state the throw left behind, the error is written to the console, the
  navigation step runs, and the \<^verbatim>\<open>lume-click\<close> event is dispatched last.
\<close>

theorem custom_action_failure_isolated:
  assumes "\<not> get_disabled s" "\<not> get_loading s"
    and "get_onclickHandler s = Some body" "body \<noteq> []"
    and "call_onclick_handler new_Function body ev s = Threw e (ev', s')"
  shows "\<exists>ev2 s2 nav.
           navigate ev' (log_effect (ConsoleError ''Error executing onclick handler:'' e) s') =
             Returned (ev2, s2) \<and>
           handleClick new_Function ev s =
             Returned (ev2, log_effect (DispatchEvent (lume_click ev2 s2)) s2) \<and>
           effects (log_effect (DispatchEvent (lume_click ev2 s2)) s2) =
             effects s' @ [ConsoleError ''Error executing onclick handler:'' e] @ nav @
               [DispatchEvent (lume_click ev2 s2)]"
proof -
  let ?s1 = "log_effect (ConsoleError ''Error executing onclick handler:'' e) s'"
  have r: "run_custom_action new_Function ev s = Returned (ev', ?s1)"
    using assms(3-5) by (rule run_custom_action_caught)
  obtain ev2 s2 where n: "navigate ev' ?s1 = Returned (ev2, s2)"
    using navigate_returns [of ev' ?s1] by auto
  obtain nav where e: "effects s2 = effects ?s1 @ nav"
    using effects_navigate [OF n] by auto
  have h: "handleClick new_Function ev s =
             Returned (ev2, log_effect (DispatchEvent (lume_click ev2 s2)) s2)"
    using assms(1,2) r n by (rule handleClick_ungated)
  have "effects (log_effect (DispatchEvent (lume_click ev2 s2)) s2) =
          effects s' @ [ConsoleError ''Error executing onclick handler:'' e] @ nav @
            [DispatchEvent (lume_click ev2 s2)]"
    using e by (simp add: log_effect_def)
  with n h show ?thesis by blast
qed

theorem custom_action_failure_isolated_witness:
  "handleClick (\<lambda>body. Inl (SyntaxError body))
     \<lparr>key = None, cancelable = True, defaultPrevented = False, propagationStopped = False\<rparr>
     (construct [''onclick-handler'' \<mapsto> ''f('', ''href'' \<mapsto> ''/a''] Map.empty (\<lambda>n. []))
   = Returned
      (\<lparr>key = None, cancelable = True, defaultPrevented = True, propagationStopped = False\<rparr>,
       (construct [''onclick-handler'' \<mapsto> ''f('', ''href'' \<mapsto> ''/a''] Map.empty (\<lambda>n. []))
         \<lparr>effects :=
            [NewFunction ''f('',
             ConsoleError ''Error executing onclick handler:'' (SyntaxError ''f(''),
             LocationAssign ''/a'',
             DispatchEvent
               \<lparr>event_type = ''lume-click'', bubbles = True, composed = True,
                detail_originalEvent =
                  \<lparr>key = None, cancelable = True, defaultPrevented = True, propagationStopped = False\<rparr>,
                detail_href = Some ''/a'', detail_variant = ''primary'', detail_size = ''medium''\<rparr>]\<rparr>)"
  using custom_action_failure_isolated
    [of "construct [''onclick-handler'' \<mapsto> ''f('', ''href'' \<mapsto> ''/a''] Map.empty (\<lambda>n. [])"
        "''f(''" "\<lambda>body. Inl (SyntaxError body)"
        "\<lparr>key = None, cancelable = True, defaultPrevented = False, propagationStopped = False\<rparr>"
        "SyntaxError ''f(''"
        "\<lparr>key = None, cancelable = True, defaultPrevented = False, propagationStopped = False\<rparr>"
        "log_effect (NewFunction ''f('')
           (construct [''onclick-handler'' \<mapsto> ''f('', ''href'' \<mapsto> ''/a''] Map.empty (\<lambda>n. []))"]
  by (auto simp add: construct_def get_disabled_def get_loading_def hasAttribute_def
        get_onclickHandler_def getAttribute_def call_onclick_handler_def log_effect_def Let_def
        navigate_def get_href_def get_target_def or_else_def validTargets_def preventDefault_def
        lume_click_def get_variant_def get_size_def validVariants_def validSizes_def)

section \<open>Resolution of the enumerated attributes\<close>

text \<open>
  C3. A raw \<^verbatim>\<open>variant\<close>, \<^verbatim>\<open>size\<close> or \<^verbatim>\<open>target\<close> attribute that is missing or not one of the
  valid strings resolves to \<^verbatim>\<open>primary\<close>, \<^verbatim>\<open>medium\<close> and \<^verbatim>\<open>_self\<close>; a valid raw string
  resolves to itself.
\<close>

theorem enum_fallback:
  "(attrs s ''variant'' \<notin> Some ` set validVariants \<longrightarrow> get_variant s = ''primary'') \<and>
   (attrs s ''size'' \<notin> Some ` set validSizes \<longrightarrow> get_size s = ''medium'') \<and>
   (attrs s ''target'' \<notin> Some ` set validTargets \<longrightarrow> get_target s = ''_self'') \<and>
   (\<forall>v \<in> set validVariants. attrs s ''variant'' = Some v \<longrightarrow> get_variant s = v) \<and>
   (\<forall>v \<in> set validSizes. attrs s ''size'' = Some v \<longrightarrow> get_size s = v) \<and>
   (\<forall>v \<in> set validTargets. attrs s ''target'' = Some v \<longrightarrow> get_target s = v)"
proof -
  have v1: "attrs s ''variant'' \<notin> Some ` set validVariants \<longrightarrow> get_variant s = ''primary''"
    by (cases "attrs s ''variant''")
       (auto simp add: get_variant_def getAttribute_def or_else_def Let_def)
  have v2: "attrs s ''size'' \<notin> Some ` set validSizes \<longrightarrow> get_size s = ''medium''"
    by (cases "attrs s ''size''")
       (auto simp add: get_size_def getAttribute_def or_else_def Let_def)
  have v3: "attrs s ''target'' \<notin> Some ` set validTargets \<longrightarrow> get_target s = ''_self''"
    by (cases "attrs s ''target''")
       (auto simp add: get_target_def getAttribute_def or_else_def Let_def)
  have e: "[] \<notin> set validVariants" "[] \<notin> set validSizes" "[] \<notin> set validTargets"
    by (simp_all add: validVariants_def validSizes_def validTargets_def)
  have v4: "\<forall>v \<in> set validVariants. attrs s ''variant'' = Some v \<longrightarrow> get_variant s = v"
    using e by (auto simp add: get_variant_def getAttribute_def or_else_def Let_def)
  have v5: "\<forall>v \<in> set validSizes. attrs s ''size'' = Some v \<longrightarrow> get_size s = v"
    using e by (auto simp add: get_size_def getAttribute_def or_else_def Let_def)
  have v6: "\<forall>v \<in> set validTargets. attrs s ''target'' = Some v \<longrightarrow> get_target s = v"
    using e by (auto simp add: get_target_def getAttribute_def or_else_def Let_def)
  from v1 v2 v3 v4 v5 v6 show ?thesis by blast
qed

theorem enum_fallback_witness:
  "get_variant (construct [''variant'' \<mapsto> ''fancy'', ''target'' \<mapsto> ''_blank''] Map.empty (\<lambda>n. [])) = ''primary'' \<and>
   get_size (construct [''variant'' \<mapsto> ''fancy'', ''target'' \<mapsto> ''_blank''] Map.empty (\<lambda>n. [])) = ''medium'' \<and>
   get_target (construct [''variant'' \<mapsto> ''fancy'', ''target'' \<mapsto> ''_blank''] Map.empty (\<lambda>n. [])) = ''_blank''"
  using enum_fallback
    [of "construct [''variant'' \<mapsto> ''fancy'', ''target'' \<mapsto> ''_blank''] Map.empty (\<lambda>n. [])"]
  by (simp add: construct_def validVariants_def validSizes_def validTargets_def)

section \<open>Re-rendering\<close>

lemma shadow_markup_cong:
  assumes a: "attrs s = attrs t"
  shows "shadow_markup i s = shadow_markup i t"
proof -
  have g: "\<And>n. getAttribute n s = getAttribute n t" "\<And>n. hasAttribute n s = hasAttribute n t"
    using a by (simp_all add: getAttribute_def hasAttribute_def)
  have 1: "get_variant s = get_variant t" "get_size s = get_size t" "get_target s = get_target t"
    "get_href s = get_href t" "get_disabled s = get_disabled t" "get_loading s = get_loading t"
    "get_fullWidth s = get_fullWidth t"
    by (simp_all add: g get_variant_def get_size_def get_target_def get_href_def
          get_disabled_def get_loading_def get_fullWidth_def)
  have 2: "generateInlineStyles s = generateInlineStyles t"
    by (simp add: g generateInlineStyles_def get_color_def get_bgColor_def get_border_def
          get_radius_def get_padding_def get_fontSize_def get_fontWeight_def get_width_def
          get_height_def get_shadow_def)
  have 3: "glowEffect s = glowEffect t"
    by (simp only: glowEffect_def 1 g get_glowColor_def)
  have 4: "customHoverActiveStyles i s = customHoverActiveStyles i t"
    by (simp only: customHoverActiveStyles_def g get_hoverColor_def get_hoverBgColor_def
          get_activeColor_def get_activeBgColor_def)
  show ?thesis
    by (simp only: shadow_markup_def 1 2 3 4)
qed

lemma getInstanceId_kept:
  "instanceId (snd (getInstanceId s)) = Some (fst (getInstanceId s)) \<and> fst (getInstanceId s) \<noteq> []"
  by (simp add: getInstanceId_def Let_def split: option.splits)

text \<open>
  C4. Rendering again, with no attribute changed in between, assigns the very same string
  to \<^verbatim>\<open>shadowRoot.innerHTML\<close>, style sheet and markup alike, and keeps the instance
  identifier: the first render has fixed it, whatever the random source yields later.
\<close>

theorem render_idempotent:
  "shadow_html (render (render s)) = shadow_html (render s) \<and>
   instanceId (render (render s)) = instanceId (render s)"
proof -
  let ?i = "fst (getInstanceId s)"
  have k: "instanceId (render s) = Some ?i" "?i \<noteq> []"
    using getInstanceId_kept [of s] by (simp_all add: render_shadow)
  have g: "getInstanceId (render s) = (?i, render s)"
    using k by (simp add: getInstanceId_def Let_def)
  have a: "attrs (render s) = attrs (snd (getInstanceId s))"
    by (simp add: attrs_render attrs_getInstanceId)
  have "shadow_html (render (render s)) = shadow_markup ?i (render s)"
    by (simp add: render_shadow g)
  also have "\<dots> = shadow_markup ?i (snd (getInstanceId s))"
    using a by (rule shadow_markup_cong)
  also have "\<dots> = shadow_html (render s)"
    by (simp add: render_shadow)
  finally have h: "shadow_html (render (render s)) = shadow_html (render s)" .
  have "instanceId (render (render s)) = instanceId (render s)"
    by (simp add: render_shadow(3) g)
  with h show ?thesis by simp
qed

section \<open>Properties set before the upgrade\<close>

lemma upgradeProperty_setter:
  assumes "own s prop = Some v" "class_setter prop = Some setter"
  shows "upgradeProperty prop s = Returned (setter v (s\<lparr>own := (own s)(prop := None)\<rparr>))"
  using assms by (simp add: upgradeProperty_def assign_property_def)

text \<open>
  C5 does not hold of the code. A consumer's early \<^verbatim>\<open>color\<close> property makes
  \<^verbatim>\<open>_upgradeProperties\<close>, and with it \<^verbatim>\<open>connectedCallback\<close>, throw a type error after the
  property has been deleted: the class has a getter of that name and no setter, so nothing
  reaches the attribute bag, and the element is neither rendered nor bound. An early
  \<^verbatim>\<open>bg-color\<close> property is deleted and put back as the same plain property, the attribute
  bag untouched.
\<close>

theorem upgrade_drops_early_properties:
  "upgradeProperties (construct Map.empty [''color'' \<mapsto> JStr ''red''] rnd) =
     Threw (TypeError ''Cannot set property color which has only a getter'')
           (construct Map.empty Map.empty rnd) \<and>
   connectedCallback (construct Map.empty [''color'' \<mapsto> JStr ''red''] rnd) =
     Threw (TypeError ''Cannot set property color which has only a getter'')
           (construct Map.empty Map.empty rnd) \<and>
   upgradeProperties (construct Map.empty [''bg-color'' \<mapsto> JStr ''red''] rnd) =
     Returned (construct Map.empty [''bg-color'' \<mapsto> JStr ''red''] rnd)"
proof -
  have a: "upgradeProperties (construct Map.empty [''color'' \<mapsto> JStr ''red''] rnd) =
     Threw (TypeError ''Cannot set property color which has only a getter'')
           (construct Map.empty Map.empty rnd)"
    by (simp add: upgradeProperties_def observedAttributes_def upgradeProperty_def
          assign_property_def class_setter_def class_getters_def construct_def)
  have b: "upgradeProperties (construct Map.empty [''bg-color'' \<mapsto> JStr ''red''] rnd) =
     Returned (construct Map.empty [''bg-color'' \<mapsto> JStr ''red''] rnd)"
    by (simp add: upgradeProperties_def observedAttributes_def upgradeProperty_def
          assign_property_def class_setter_def class_getters_def construct_def)
  show ?thesis by (simp add: a b connectedCallback_def bind_completion_def)
qed

section \<open>Writing a property and reading it back\<close>

text \<open>
  C6, as the code has it. A boolean written to \<^verbatim>\<open>disabled\<close> or \<^verbatim>\<open>loading\<close> is read back, and
  so is a non-empty string written to \<^verbatim>\<open>href\<close>; the read is of the attribute bag, whether
  or not the write caused a render. Writing \<^verbatim>\<open>null\<close> or the empty string to \<^verbatim>\<open>href\<close>
  removes the attribute, and the read gives \<^verbatim>\<open>null\<close>.
\<close>

theorem property_round_trip:
  "get_disabled (set_disabled (JBool b) s) = b \<and>
   get_loading (set_loading (JBool b) s) = b \<and>
   (h \<noteq> [] \<longrightarrow> get_href (set_href (JStr h) s) = Some h) \<and>
   get_href (set_href JNull s) = None \<and>
   get_href (set_href (JStr []) s) = None"
  by (simp add: get_disabled_def get_loading_def get_href_def hasAttribute_def getAttribute_def
        set_disabled_def set_loading_def set_href_def attrs_setAttribute attrs_removeAttribute)

theorem property_round_trip_witness:
  "get_disabled (set_disabled (JBool True) (construct Map.empty Map.empty (\<lambda>n. []))) \<and>
   \<not> get_loading (set_loading (JBool False) (construct [''loading'' \<mapsto> []] Map.empty (\<lambda>n. []))) \<and>
   get_href (set_href (JStr ''/docs'') (construct Map.empty Map.empty (\<lambda>n. []))) = Some ''/docs''"
  using property_round_trip [of True "construct Map.empty Map.empty (\<lambda>n. [])" "''/docs''"]
        property_round_trip [of False "construct [''loading'' \<mapsto> []] Map.empty (\<lambda>n. [])" "''/docs''"]
  by simp

text \<open>
  C6 as stated fails for the empty string: written to \<^verbatim>\<open>href\<close>, it is not what the next
  read returns.
\<close>

theorem href_empty_string_not_read_back:
  "js_of_attr (get_href (set_href (JStr [])
      (construct [''href'' \<mapsto> ''/home''] Map.empty (\<lambda>n. [])))) \<noteq> JStr []"
  by (simp add: get_href_def getAttribute_def set_href_def attrs_removeAttribute js_of_attr_def)

section \<open>Navigation\<close>

text \<open>
  The pointer path. An ungated call of \<^verbatim>\<open>handleClick\<close> reaches the navigation step with the
  event and the instance the custom action left (the incoming ones when no action is
  configured). With a non-empty \<^verbatim>\<open>href\<close> there and the default not yet prevented, it
  prevents the default and makes exactly one navigation call before the dispatch:
  \<^verbatim>\<open>window.open\<close> with the features \<^verbatim>\<open>noopener,noreferrer\<close> when the resolved target is
  \<^verbatim>\<open>_blank\<close>, and the assignment to \<^verbatim>\<open>window.location.href\<close> for every other target.
\<close>

lemma href_navigation:
  assumes "\<not> get_disabled s" "\<not> get_loading s"
    and "run_custom_action new_Function ev s = Returned (ev1, s1)"
    and "get_href s1 = Some href" "href \<noteq> []" "\<not> defaultPrevented ev1"
  shows "handleClick new_Function ev s =
           Returned (preventDefault ev1,
             log_effect (DispatchEvent (lume_click (preventDefault ev1) s1))
               (log_effect
                  (if get_target s1 = ''_blank''
                   then WindowOpen href ''_blank'' ''noopener,noreferrer''
                   else LocationAssign href) s1)) \<and>
         effects (log_effect (DispatchEvent (lume_click (preventDefault ev1) s1))
               (log_effect
                  (if get_target s1 = ''_blank''
                   then WindowOpen href ''_blank'' ''noopener,noreferrer''
                   else LocationAssign href) s1)) =
           effects s1 @
             [if get_target s1 = ''_blank''
              then WindowOpen href ''_blank'' ''noopener,noreferrer''
              else LocationAssign href,
              DispatchEvent (lume_click (preventDefault ev1) s1)] \<and>
         (\<not> truthy (get_onclickHandler s) \<longrightarrow> ev1 = ev \<and> s1 = s)"
proof -
  let ?nav = "if get_target s1 = ''_blank''
              then WindowOpen href ''_blank'' ''noopener,noreferrer''
              else LocationAssign href"
  have n: "navigate ev1 s1 = Returned (preventDefault ev1, log_effect ?nav s1)"
    using assms(4-6) by (simp add: navigate_def)
  have l: "lume_click (preventDefault ev1) (log_effect ?nav s1) = lume_click (preventDefault ev1) s1"
    by (simp add: lume_click_def log_effect_def get_href_def get_variant_def get_size_def
          getAttribute_def)
  have h: "handleClick new_Function ev s =
           Returned (preventDefault ev1,
             log_effect (DispatchEvent (lume_click (preventDefault ev1) s1)) (log_effect ?nav s1))"
    using handleClick_ungated [OF assms(1,2,3) n] l by simp
  have e: "effects (log_effect (DispatchEvent (lume_click (preventDefault ev1) s1)) (log_effect ?nav s1)) =
           effects s1 @ [?nav, DispatchEvent (lume_click (preventDefault ev1) s1)]"
    by (simp add: log_effect_def)
  have u: "\<not> truthy (get_onclickHandler s) \<longrightarrow> ev1 = ev \<and> s1 = s"
    using assms(3) run_custom_action_none [of s new_Function ev] by auto
  from h e u show ?thesis by blast
qed

lemma href_navigation_click:
  "handleClick (\<lambda>body. Inl (SyntaxError body))
     \<lparr>key = None, cancelable = True, defaultPrevented = False, propagationStopped = False\<rparr>
     (construct [''href'' \<mapsto> ''https://example.com'', ''target'' \<mapsto> ''_blank''] Map.empty (\<lambda>n. []))
   = Returned
      (\<lparr>key = None, cancelable = True, defaultPrevented = True, propagationStopped = False\<rparr>,
       (construct [''href'' \<mapsto> ''https://example.com'', ''target'' \<mapsto> ''_blank''] Map.empty (\<lambda>n. []))
         \<lparr>effects :=
            [WindowOpen ''https://example.com'' ''_blank'' ''noopener,noreferrer'',
             DispatchEvent
               \<lparr>event_type = ''lume-click'', bubbles = True, composed = True,
                detail_originalEvent =
                  \<lparr>key = None, cancelable = True, defaultPrevented = True, propagationStopped = False\<rparr>,
                detail_href = Some ''https://example.com'', detail_variant = ''primary'',
                detail_size = ''medium''\<rparr>]\<rparr>)"
  using href_navigation
    [of "construct [''href'' \<mapsto> ''https://example.com'', ''target'' \<mapsto> ''_blank''] Map.empty (\<lambda>n. [])"
        "\<lambda>body. Inl (SyntaxError body)"
        "\<lparr>key = None, cancelable = True, defaultPrevented = False, propagationStopped = False\<rparr>"
        "\<lparr>key = None, cancelable = True, defaultPrevented = False, propagationStopped = False\<rparr>"
        "construct [''href'' \<mapsto> ''https://example.com'', ''target'' \<mapsto> ''_blank''] Map.empty (\<lambda>n. [])"
        "''https://example.com''"]
  by (simp add: construct_def get_disabled_def get_loading_def hasAttribute_def
        run_custom_action_def get_onclickHandler_def getAttribute_def get_href_def
        get_target_def or_else_def validTargets_def preventDefault_def log_effect_def
        lume_click_def get_variant_def get_size_def validVariants_def validSizes_def Let_def)

text \<open>
  The keyboard path. \<^verbatim>\<open>handleKeydown\<close> calls \<^verbatim>\<open>preventDefault\<close> on the key event and then
  hands that same event to \<^verbatim>\<open>handleClick\<close>, whose navigation step asks that the default be
  not prevented. Whenever the event comes back from the custom action default-prevented,
  as every cancelable key event does when no action is configured, the step is skipped
  and only the \<^verbatim>\<open>lume-click\<close> event is dispatched.
\<close>

lemma keydown_skips_navigation:
  assumes "\<not> get_disabled s" "\<not> get_loading s"
    and "key kev = Some ''Enter'' \<or> key kev = Some '' ''"
    and "run_custom_action new_Function (preventDefault kev) s = Returned (ev1, s1)"
    and "defaultPrevented ev1"
  shows "handleKeydown new_Function kev s =
           Returned (ev1, log_effect (DispatchEvent (lume_click ev1 s1)) s1)"
proof -
  have n: "navigate ev1 s1 = Returned (ev1, s1)"
    using assms(5) by (simp add: navigate_def split: option.splits)
  have "handleClick new_Function (preventDefault kev) s =
          Returned (ev1, log_effect (DispatchEvent (lume_click ev1 s1)) s1)"
    using assms(1,2,4) n by (rule handleClick_ungated)
  then show ?thesis using assms(1-3) by (simp add: handleKeydown_def)
qed

lemma keydown_skips_navigation_plain:
  assumes "\<not> get_disabled s" "\<not> get_loading s"
    and "key kev = Some ''Enter'' \<or> key kev = Some '' ''"
    and "\<not> truthy (get_onclickHandler s)" "cancelable kev"
  shows "handleKeydown new_Function kev s =
           Returned (preventDefault kev,
                     log_effect (DispatchEvent (lume_click (preventDefault kev) s)) s)"
  using assms(1-3)
proof (rule keydown_skips_navigation)
  show "run_custom_action new_Function (preventDefault kev) s = Returned (preventDefault kev, s)"
    using assms(4) by (rule run_custom_action_none)
  show "defaultPrevented (preventDefault kev)"
    using assms(5) by (simp add: preventDefault_def)
qed

text \<open>
  C7 does not hold of the code on the keyboard path. On an ungated instance with
  \<^verbatim>\<open>href="https://example.com"\<close> and \<^verbatim>\<open>target="_blank"\<close>, an Enter key whose default nobody
  has prevented dispatches \<^verbatim>\<open>lume-click\<close> and opens nothing: no \<^verbatim>\<open>window.open\<close>, no
  assignment to the location. A click on the same instance opens the new context with
  \<^verbatim>\<open>noopener,noreferrer\<close>.
\<close>

theorem keyboard_activation_never_navigates:
  "handleKeydown (\<lambda>body. Inl (SyntaxError body))
     \<lparr>key = Some ''Enter'', cancelable = True, defaultPrevented = False, propagationStopped = False\<rparr>
     (construct [''href'' \<mapsto> ''https://example.com'', ''target'' \<mapsto> ''_blank''] Map.empty (\<lambda>n. []))
   = Returned
      (\<lparr>key = Some ''Enter'', cancelable = True, defaultPrevented = True, propagationStopped = False\<rparr>,
       (construct [''href'' \<mapsto> ''https://example.com'', ''target'' \<mapsto> ''_blank''] Map.empty (\<lambda>n. []))
         \<lparr>effects :=
            [DispatchEvent
               \<lparr>event_type = ''lume-click'', bubbles = True, composed = True,
                detail_originalEvent =
                  \<lparr>key = Some ''Enter'', cancelable = True, defaultPrevented = True, propagationStopped = False\<rparr>,
                detail_href = Some ''https://example.com'', detail_variant = ''primary'',
                detail_size = ''medium''\<rparr>]\<rparr>) \<and>
   handleClick (\<lambda>body. Inl (SyntaxError body))
     \<lparr>key = None, cancelable = True, defaultPrevented = False, propagationStopped = False\<rparr>
     (construct [''href'' \<mapsto> ''https://example.com'', ''target'' \<mapsto> ''_blank''] Map.empty (\<lambda>n. []))
   = Returned
      (\<lparr>key = None, cancelable = True, defaultPrevented = True, propagationStopped = False\<rparr>,
       (construct [''href'' \<mapsto> ''https://example.com'', ''target'' \<mapsto> ''_blank''] Map.empty (\<lambda>n. []))
         \<lparr>effects :=
            [WindowOpen ''https://example.com'' ''_blank'' ''noopener,noreferrer'',
             DispatchEvent
               \<lparr>event_type = ''lume-click'', bubbles = True, composed = True,
                detail_originalEvent =
                  \<lparr>key = None, cancelable = True, defaultPrevented = True, propagationStopped = False\<rparr>,
                detail_href = Some ''https://example.com'', detail_variant = ''primary'',
                detail_size = ''medium''\<rparr>]\<rparr>)"
  by (simp add: handleKeydown_def handleClick_def bind_completion_def dispatch_lume_click_def
        construct_def get_disabled_def get_loading_def hasAttribute_def
        run_custom_action_def get_onclickHandler_def getAttribute_def navigate_def get_href_def
        get_target_def or_else_def validTargets_def preventDefault_def log_effect_def
        lume_click_def get_variant_def get_size_def validVariants_def validSizes_def Let_def)

section \<open>The ripple overlay\<close>

lemma ripple_listeners_render:
  "ripple_listeners (render s) =
     (if get_disabled s \<or> get_loading s then [] else [Suc (next_node s)])"
proof -
  obtain i t where g: "getInstanceId s = (i, t)" by (cases "getInstanceId s")
  have d: "get_disabled t = get_disabled s" "get_loading t = get_loading s" "next_node t = next_node s"
    using gating_getInstanceId [of s] next_node_getInstanceId [of s] by (simp_all add: g)
  show ?thesis
    using d
    by (auto simp add: render_def g Let_def setupRippleEffect_def ripple_listeners_def
          addEventListener_def removeEventListener_def get_disabled_def get_loading_def
          hasAttribute_def split: option.splits)
qed

lemma overlays_render: "overlays (render s) = []"
proof -
  obtain i t where g: "getInstanceId s = (i, t)" by (cases "getInstanceId s")
  show ?thesis
    by (auto simp add: render_def g Let_def setupRippleEffect_def overlays_def
          addEventListener_def removeEventListener_def split: option.splits)
qed

lemma timers_render: "timers (render s) = timers s"
proof -
  obtain i t where g: "getInstanceId s = (i, t)" by (cases "getInstanceId s")
  then have "timers t = timers s"
    by (auto simp add: getInstanceId_def Let_def split: option.splits if_splits)
  then show ?thesis
    by (auto simp add: render_def g Let_def setupRippleEffect_def
          addEventListener_def removeEventListener_def split: option.splits)
qed

lemma next_node_render:
  "next_node (render s) =
     (if get_disabled s \<or> get_loading s then Suc (next_node s) else Suc (Suc (next_node s)))"
proof -
  obtain i t where g: "getInstanceId s = (i, t)" by (cases "getInstanceId s")
  have d: "get_disabled t = get_disabled s" "get_loading t = get_loading s" "next_node t = next_node s"
    using gating_getInstanceId [of s] next_node_getInstanceId [of s] by (simp_all add: g)
  show ?thesis
    using d
    by (auto simp add: render_def g Let_def setupRippleEffect_def
          addEventListener_def removeEventListener_def get_disabled_def get_loading_def
          hasAttribute_def split: option.splits)
qed

lemma createRipple_suppressed:
  "get_disabled s \<or> get_loading s \<or> get_variant s = ''link'' \<Longrightarrow>
   createRipple ops rect ev s = s"
  by (simp add: createRipple_def)

lemma fold_fixed: "(\<And>h. f h s = s) \<Longrightarrow> fold f hs s = s"
  by (induction hs) simp_all

lemma btn_click_suppressed:
  "get_disabled s \<or> get_loading s \<or> get_variant s = ''link'' \<Longrightarrow>
   btn_click ops rect cx cy s = s"
  by (simp add: btn_click_def createRipple_suppressed fold_fixed split: option.splits)

lemma btn_click_single:
  assumes "shadow_btn s = Some b" "ripple_listeners s = [h]"
  shows "btn_click ops rect cx cy s =
           createRipple ops rect \<lparr>currentTarget = b, clientX = cx, clientY = cy\<rparr> s"
  using assms by (auto simp add: btn_click_def ripple_listeners_def split: option.splits)

lemma createRipple_overlay:
  assumes "\<not> get_disabled s" "\<not> get_loading s" "get_variant s \<noteq> ''link''"
    and "shadow_btn s = Some b"
  shows "overlays (createRipple ops rect \<lparr>currentTarget = b, clientX = cx, clientY = cy\<rparr> s) =
           (if btns s b = None then [] else overlays s @ [next_node s])"
    and "ripples (createRipple ops rect \<lparr>currentTarget = b, clientX = cx, clientY = cy\<rparr> s) (next_node s) =
           Some \<lparr>classList = [''ripple''],
                 style_width = num_to_string ops (Math_max ops (rect_width (rect b)) (rect_height (rect b))) @ ''px'',
                 style_height = num_to_string ops (Math_max ops (rect_width (rect b)) (rect_height (rect b))) @ ''px'',
                 style_left = num_to_string ops
                    (num_minus ops (num_minus ops cx (rect_left (rect b)))
                       (num_divide ops (Math_max ops (rect_width (rect b)) (rect_height (rect b))) (num_2 ops))) @ ''px'',
                 style_top = num_to_string ops
                    (num_minus ops (num_minus ops cy (rect_top (rect b)))
                       (num_divide ops (Math_max ops (rect_width (rect b)) (rect_height (rect b))) (num_2 ops))) @ ''px'',
                 parentNode = Some b\<rparr>"
    and "timers (createRipple ops rect \<lparr>currentTarget = b, clientX = cx, clientY = cy\<rparr> s) =
           timers s @ [\<lparr>delay_ms = 600, captured_ripple = next_node s\<rparr>]"
  using assms
  by (auto simp add: createRipple_def Let_def setTimeout_def appendChild_def overlays_def
        split: option.splits)

lemma ripple_timeout_detached:
  "ripples s rid = Some r \<Longrightarrow> parentNode r = None \<Longrightarrow> ripple_timeout rid s = s"
  by (simp add: ripple_timeout_def)

lemma ripple_timeout_removes:
  assumes "ripples s rid = Some r" "parentNode r = Some b" "shadow_btn s = Some b"
  shows "overlays (ripple_timeout rid s) = remove1 rid (overlays s)"
    and "ripples (ripple_timeout rid s) rid = Some (r\<lparr>parentNode := None\<rparr>)"
  using assms by (auto simp add: ripple_timeout_def overlays_def split: option.splits)

text \<open>
  The activation handler and the keyboard listener never touch the rendered element: after
  the custom action, navigation and dispatch leave elements, overlays and timers as they
  are.
\<close>

lemma overlays_cong:
  "btns s' = btns s \<Longrightarrow> shadow_btn s' = shadow_btn s \<Longrightarrow> overlays s' = overlays s"
  by (simp add: overlays_def split: option.splits)

lemma navigate_dom:
  assumes "navigate ev s = Returned (ev2, s2)"
  shows "btns s2 = btns s \<and> ripples s2 = ripples s \<and> timers s2 = timers s \<and>
         shadow_btn s2 = shadow_btn s"
  using assms by (auto simp add: navigate_def log_effect_def split: option.splits if_splits)

lemma handleClick_dom:
  assumes "\<not> get_disabled s" "\<not> get_loading s"
    and "run_custom_action new_Function ev s = Returned (ev1, s1)"
  shows "\<exists>ev' s'. handleClick new_Function ev s = Returned (ev', s') \<and>
           btns s' = btns s1 \<and> ripples s' = ripples s1 \<and> timers s' = timers s1 \<and>
           shadow_btn s' = shadow_btn s1"
proof -
  obtain ev2 s2 where n: "navigate ev1 s1 = Returned (ev2, s2)"
    using navigate_returns [of ev1 s1] by auto
  have h: "handleClick new_Function ev s =
             Returned (ev2, log_effect (DispatchEvent (lume_click ev2 s2)) s2)"
    using assms n by (rule handleClick_ungated)
  show ?thesis
    using navigate_dom [OF n] by (simp add: h log_effect_def)
qed

lemma handleKeydown_dom:
  assumes "\<not> get_disabled s" "\<not> get_loading s"
    and "key kev = Some ''Enter'' \<or> key kev = Some '' ''"
    and "run_custom_action new_Function (preventDefault kev) s = Returned (ev1, s1)"
  shows "\<exists>ev' s'. handleKeydown new_Function kev s = Returned (ev', s') \<and>
           btns s' = btns s1 \<and> ripples s' = ripples s1 \<and> timers s' = timers s1 \<and>
           overlays s' = overlays s1"
proof -
  obtain ev' s' where h: "handleClick new_Function (preventDefault kev) s = Returned (ev', s')"
    and d: "btns s' = btns s1" "ripples s' = ripples s1" "timers s' = timers s1"
      "shadow_btn s' = shadow_btn s1"
    using handleClick_dom [OF assms(1,2,4)] by auto
  have k: "handleKeydown new_Function kev s = Returned (ev', s')"
    using assms(1-3) h by (simp add: handleKeydown_def)
  have "overlays s' = overlays s1"
    using d(1,4) by (rule overlays_cong)
  with k d show ?thesis by simp
qed

text \<open>
  C8, as the code has it. Every render leaves the new \<^verbatim>\<open>.btn\<close> element with one ripple
  listener, or with none when the instance is gated, however many renders came before.
  Gated, or with the variant \<^verbatim>\<open>link\<close>, neither the handler nor a click on the element
  changes anything. Otherwise a click delivered to an element with its one listener (a
  pointer activation) appends exactly one overlay: a \<^verbatim>\<open>ripple\<close> span whose width and height
  are the larger of the element's width and height, whose left and top are the pointer's
  offset in the element less half that size, and for which one timer of 600 ms is queued.
  The timer's closure takes the overlay out of its parent; run on a detached overlay it
  changes nothing. Right after a render the click leaves one overlay, and the timer none.
  A keyboard activation goes through \<^verbatim>\<open>handleKeydown\<close> to \<^verbatim>\<open>handleClick\<close> and not through
  the element's click listeners: it appends no overlay and queues no timer beyond what the
  custom action did itself.
\<close>

theorem ripple_per_activation:
  "length (ripple_listeners (render s0)) = (if get_disabled s0 \<or> get_loading s0 then 0 else 1) \<and>
   (get_disabled s \<or> get_loading s \<or> get_variant s = ''link'' \<longrightarrow>
      createRipple ops rect ev s = s \<and> btn_click ops rect cx cy s = s) \<and>
   (\<not> get_disabled s \<and> \<not> get_loading s \<and> get_variant s \<noteq> ''link'' \<and>
    shadow_btn s = Some b \<and> length (ripple_listeners s) = 1 \<longrightarrow>
      overlays (btn_click ops rect cx cy s) = overlays s @ [next_node s] \<and>
      ripples (btn_click ops rect cx cy s) (next_node s) =
        Some \<lparr>classList = [''ripple''],
              style_width = num_to_string ops (Math_max ops (rect_width (rect b)) (rect_height (rect b))) @ ''px'',
              style_height = num_to_string ops (Math_max ops (rect_width (rect b)) (rect_height (rect b))) @ ''px'',
              style_left = num_to_string ops
                 (num_minus ops (num_minus ops cx (rect_left (rect b)))
                    (num_divide ops (Math_max ops (rect_width (rect b)) (rect_height (rect b))) (num_2 ops))) @ ''px'',
              style_top = num_to_string ops
                 (num_minus ops (num_minus ops cy (rect_top (rect b)))
                    (num_divide ops (Math_max ops (rect_width (rect b)) (rect_height (rect b))) (num_2 ops))) @ ''px'',
              parentNode = Some b\<rparr> \<and>
      timers (btn_click ops rect cx cy s) = timers s @ [\<lparr>delay_ms = 600, captured_ripple = next_node s\<rparr>] \<and>
      overlays (ripple_timeout (next_node s) (btn_click ops rect cx cy s)) =
        remove1 (next_node s) (overlays s @ [next_node s]) \<and>
      ripple_timeout (next_node s) (ripple_timeout (next_node s) (btn_click ops rect cx cy s)) =
        ripple_timeout (next_node s) (btn_click ops rect cx cy s)) \<and>
   (\<not> get_disabled s0 \<and> \<not> get_loading s0 \<and> get_variant s0 \<noteq> ''link'' \<longrightarrow>
      overlays (btn_click ops rect cx cy (render s0)) = [next_node (render s0)] \<and>
      overlays (ripple_timeout (next_node (render s0)) (btn_click ops rect cx cy (render s0))) = []) \<and>
   (\<not> get_disabled s \<and> \<not> get_loading s \<and>
    (key kev = Some ''Enter'' \<or> key kev = Some '' '') \<and>
    run_custom_action new_Function (preventDefault kev) s = Returned (ev1, s1) \<longrightarrow>
      (\<exists>ev' s'. handleKeydown new_Function kev s = Returned (ev', s') \<and>
         btns s' = btns s1 \<and> ripples s' = ripples s1 \<and> timers s' = timers s1 \<and>
         overlays s' = overlays s1) \<and>
      (\<not> truthy (get_onclickHandler s) \<longrightarrow> s1 = s))"
proof -
  have a: "length (ripple_listeners (render s0)) = (if get_disabled s0 \<or> get_loading s0 then 0 else 1)"
    by (simp add: ripple_listeners_render)
  have b: "get_disabled s \<or> get_loading s \<or> get_variant s = ''link'' \<longrightarrow>
      createRipple ops rect ev s = s \<and> btn_click ops rect cx cy s = s"
    by (simp add: createRipple_suppressed btn_click_suppressed)
  have c: "overlays (btn_click ops rect cx cy t) = overlays t @ [next_node t] \<and>
      ripples (btn_click ops rect cx cy t) (next_node t) =
        Some \<lparr>classList = [''ripple''],
              style_width = num_to_string ops (Math_max ops (rect_width (rect b)) (rect_height (rect b))) @ ''px'',
              style_height = num_to_string ops (Math_max ops (rect_width (rect b)) (rect_height (rect b))) @ ''px'',
              style_left = num_to_string ops
                 (num_minus ops (num_minus ops cx (rect_left (rect b)))
                    (num_divide ops (Math_max ops (rect_width (rect b)) (rect_height (rect b))) (num_2 ops))) @ ''px'',
              style_top = num_to_string ops
                 (num_minus ops (num_minus ops cy (rect_top (rect b)))
                    (num_divide ops (Math_max ops (rect_width (rect b)) (rect_height (rect b))) (num_2 ops))) @ ''px'',
              parentNode = Some b\<rparr> \<and>
      timers (btn_click ops rect cx cy t) = timers t @ [\<lparr>delay_ms = 600, captured_ripple = next_node t\<rparr>] \<and>
      overlays (ripple_timeout (next_node t) (btn_click ops rect cx cy t)) =
        remove1 (next_node t) (overlays t @ [next_node t]) \<and>
      ripple_timeout (next_node t) (ripple_timeout (next_node t) (btn_click ops rect cx cy t)) =
        ripple_timeout (next_node t) (btn_click ops rect cx cy t)"
    if u: "\<not> get_disabled t" "\<not> get_loading t" "get_variant t \<noteq> ''link''"
      and sb: "shadow_btn t = Some b" and one: "length (ripple_listeners t) = 1"
    for t b
  proof -
    let ?ev = "\<lparr>currentTarget = b, clientX = cx, clientY = cy\<rparr>"
    let ?t' = "createRipple ops rect ?ev t"
    let ?rid = "next_node t"
    obtain h where h: "ripple_listeners t = [h]"
      using one by (cases "ripple_listeners t") simp_all
    have ex: "btns t b \<noteq> None"
      using h sb by (auto simp add: ripple_listeners_def split: option.splits)
    have click: "btn_click ops rect cx cy t = ?t'"
      using sb h by (rule btn_click_single)
    have o: "overlays ?t' = overlays t @ [?rid]"
      using createRipple_overlay(1) [OF u sb, of ops rect cx cy] ex by simp
    note r = createRipple_overlay(2) [OF u sb, of ops rect cx cy]
    note tm = createRipple_overlay(3) [OF u sb, of ops rect cx cy]
    have sb': "shadow_btn ?t' = Some b"
      using sb u by (simp add: createRipple_def Let_def setTimeout_def appendChild_def)
    have rm: "overlays (ripple_timeout ?rid ?t') = remove1 ?rid (overlays ?t')"
      by (rule ripple_timeout_removes(1) [OF r _ sb']) simp
    have r2: "ripples (ripple_timeout ?rid ?t') ?rid = Some (the (ripples ?t' ?rid)\<lparr>parentNode := None\<rparr>)"
      using ripple_timeout_removes(2) [OF r _ sb'] r by simp
    have idem: "ripple_timeout ?rid (ripple_timeout ?rid ?t') = ripple_timeout ?rid ?t'"
      by (rule ripple_timeout_detached [OF r2]) simp
    show ?thesis
      using o r tm rm idem by (simp only: click)
  qed
  have d: "overlays (btn_click ops rect cx cy (render s0)) = [next_node (render s0)] \<and>
      overlays (ripple_timeout (next_node (render s0)) (btn_click ops rect cx cy (render s0))) = []"
    if u: "\<not> get_disabled s0" "\<not> get_loading s0" "get_variant s0 \<noteq> ''link''"
  proof -
    have sb: "shadow_btn (render s0) = Some (next_node s0)"
      by (simp add: render_shadow next_node_getInstanceId)
    have one: "length (ripple_listeners (render s0)) = 1"
      using u by (simp add: ripple_listeners_render)
    show ?thesis
      using c [of "render s0" "next_node s0", OF _ _ _ sb one] u
      by (simp add: getters_render overlays_render)
  qed
  have e: "(\<exists>ev' s'. handleKeydown new_Function kev s = Returned (ev', s') \<and>
         btns s' = btns s1 \<and> ripples s' = ripples s1 \<and> timers s' = timers s1 \<and>
         overlays s' = overlays s1) \<and>
      (\<not> truthy (get_onclickHandler s) \<longrightarrow> s1 = s)"
    if u: "\<not> get_disabled s" "\<not> get_loading s"
      and k: "key kev = Some ''Enter'' \<or> key kev = Some '' ''"
      and r: "run_custom_action new_Function (preventDefault kev) s = Returned (ev1, s1)"
  proof -
    have "\<not> truthy (get_onclickHandler s) \<longrightarrow> s1 = s"
      using r run_custom_action_none [of s new_Function "preventDefault kev"] by auto
    with handleKeydown_dom [OF u k r] show ?thesis by blast
  qed
  from a b c [of s b] d e show ?thesis by blast
qed

theorem ripple_per_activation_witness:
  "overlays (btn_click
      \<lparr>Math_max = max, num_minus = (-), num_divide = (div), num_2 = 2,
       num_to_string = (\<lambda>n::int. if n = 80 then ''80'' else if n = 10 then ''10'' else ''-20'')\<rparr>
      (\<lambda>b. \<lparr>rect_left = 0, rect_top = 0, rect_width = 80, rect_height = 30\<rparr>) 50 20
      (render (construct Map.empty Map.empty (\<lambda>n. ''k3j9x0a1b'')))) = [2] \<and>
   ripples (btn_click
      \<lparr>Math_max = max, num_minus = (-), num_divide = (div), num_2 = 2,
       num_to_string = (\<lambda>n::int. if n = 80 then ''80'' else if n = 10 then ''10'' else ''-20'')\<rparr>
      (\<lambda>b. \<lparr>rect_left = 0, rect_top = 0, rect_width = 80, rect_height = 30\<rparr>) 50 20
      (render (construct Map.empty Map.empty (\<lambda>n. ''k3j9x0a1b'')))) 2 =
     Some \<lparr>classList = [''ripple''], style_width = ''80px'', style_height = ''80px'',
           style_left = ''10px'', style_top = ''-20px'', parentNode = Some 0\<rparr> \<and>
   timers (btn_click
      \<lparr>Math_max = max, num_minus = (-), num_divide = (div), num_2 = 2,
       num_to_string = (\<lambda>n::int. if n = 80 then ''80'' else if n = 10 then ''10'' else ''-20'')\<rparr>
      (\<lambda>b. \<lparr>rect_left = 0, rect_top = 0, rect_width = 80, rect_height = 30\<rparr>) 50 20
      (render (construct Map.empty Map.empty (\<lambda>n. ''k3j9x0a1b'')))) =
     [\<lparr>delay_ms = 600, captured_ripple = 2\<rparr>] \<and>
   overlays (ripple_timeout 2 (btn_click
      \<lparr>Math_max = max, num_minus = (-), num_divide = (div), num_2 = 2,
       num_to_string = (\<lambda>n::int. if n = 80 then ''80'' else if n = 10 then ''10'' else ''-20'')\<rparr>
      (\<lambda>b. \<lparr>rect_left = 0, rect_top = 0, rect_width = 80, rect_height = 30\<rparr>) 50 20
      (render (construct Map.empty Map.empty (\<lambda>n. ''k3j9x0a1b''))))) = [] \<and>
   (\<exists>ev' s'. handleKeydown (\<lambda>body. Inl (SyntaxError body))
        \<lparr>key = Some '' '', cancelable = True, defaultPrevented = False, propagationStopped = False\<rparr>
        (render (construct Map.empty Map.empty (\<lambda>n. ''k3j9x0a1b''))) = Returned (ev', s') \<and>
      overlays s' = [] \<and> timers s' = [])"
proof -
  let ?s0 = "construct Map.empty Map.empty (\<lambda>n. ''k3j9x0a1b'')"
  let ?kev = "\<lparr>key = Some '' '', cancelable = True, defaultPrevented = False, propagationStopped = False\<rparr>"
  have g: "\<not> get_disabled ?s0" "\<not> get_loading ?s0" "get_variant ?s0 \<noteq> ''link''"
    by (simp_all add: construct_def get_disabled_def get_loading_def hasAttribute_def
          get_variant_def getAttribute_def or_else_def validVariants_def)
  have n: "next_node (render ?s0) = 2" "shadow_btn (render ?s0) = Some 0"
    "length (ripple_listeners (render ?s0)) = 1" "timers (render ?s0) = []"
    using g by (simp_all add: next_node_render render_shadow next_node_getInstanceId
                  ripple_listeners_render timers_render) (simp_all add: construct_def)
  have q: "\<not> truthy (get_onclickHandler (render ?s0))"
    by (simp add: get_onclickHandler_def getAttribute_def attrs_render truthy_def)
       (simp add: construct_def)
  have r: "run_custom_action (\<lambda>body. Inl (SyntaxError body)) (preventDefault ?kev) (render ?s0) =
             Returned (preventDefault ?kev, render ?s0)"
    using q by (rule run_custom_action_none)
  show ?thesis
    using ripple_per_activation
      [of ?s0 "render ?s0"
          "\<lparr>Math_max = max, num_minus = (-), num_divide = (div), num_2 = 2,
            num_to_string = (\<lambda>n::int. if n = 80 then ''80'' else if n = 10 then ''10'' else ''-20'')\<rparr>"
          "\<lambda>b. \<lparr>rect_left = 0, rect_top = 0, rect_width = 80, rect_height = 30\<rparr>"
          "\<lparr>currentTarget = 0, clientX = 50, clientY = 20\<rparr>" 50 20 0
          ?kev "\<lambda>body. Inl (SyntaxError body)" "preventDefault ?kev" "render ?s0"]
      g n r
    by (simp add: getters_render overlays_render) blast
qed

text \<open>
  C8 as stated fails for a keyboard activation: the Enter key on a freshly rendered,
  ungated \<^verbatim>\<open>primary\<close> instance dispatches \<^verbatim>\<open>lume-click\<close> and leaves the element without an
  overlay and the timer queue empty.
\<close>

theorem keyboard_activation_no_ripple:
  "handleKeydown (\<lambda>body. Inl (SyntaxError body))
     \<lparr>key = Some ''Enter'', cancelable = True, defaultPrevented = False, propagationStopped = False\<rparr>
     (render (construct Map.empty Map.empty (\<lambda>n. ''k3j9x0a1b'')))
   = Returned
      (\<lparr>key = Some ''Enter'', cancelable = True, defaultPrevented = True, propagationStopped = False\<rparr>,
       log_effect
         (DispatchEvent
            \<lparr>event_type = ''lume-click'', bubbles = True, composed = True,
             detail_originalEvent =
               \<lparr>key = Some ''Enter'', cancelable = True, defaultPrevented = True, propagationStopped = False\<rparr>,
             detail_href = None, detail_variant = ''primary'', detail_size = ''medium''\<rparr>)
         (render (construct Map.empty Map.empty (\<lambda>n. ''k3j9x0a1b'')))) \<and>
   overlays (log_effect
         (DispatchEvent
            \<lparr>event_type = ''lume-click'', bubbles = True, composed = True,
             detail_originalEvent =
               \<lparr>key = Some ''Enter'', cancelable = True, defaultPrevented = True, propagationStopped = False\<rparr>,
             detail_href = None, detail_variant = ''primary'', detail_size = ''medium''\<rparr>)
         (render (construct Map.empty Map.empty (\<lambda>n. ''k3j9x0a1b'')))) = [] \<and>
   timers (log_effect
         (DispatchEvent
            \<lparr>event_type = ''lume-click'', bubbles = True, composed = True,
             detail_originalEvent =
               \<lparr>key = Some ''Enter'', cancelable = True, defaultPrevented = True, propagationStopped = False\<rparr>,
             detail_href = None, detail_variant = ''primary'', detail_size = ''medium''\<rparr>)
         (render (construct Map.empty Map.empty (\<lambda>n. ''k3j9x0a1b'')))) = [] \<and>
   \<not> get_disabled (render (construct Map.empty Map.empty (\<lambda>n. ''k3j9x0a1b''))) \<and>
   \<not> get_loading (render (construct Map.empty Map.empty (\<lambda>n. ''k3j9x0a1b''))) \<and>
   get_variant (render (construct Map.empty Map.empty (\<lambda>n. ''k3j9x0a1b''))) = ''primary''"
proof -
  let ?s0 = "construct Map.empty Map.empty (\<lambda>n. ''k3j9x0a1b'')"
  let ?kev = "\<lparr>key = Some ''Enter'', cancelable = True, defaultPrevented = False, propagationStopped = False\<rparr>"
  have a: "attrs (render ?s0) = Map.empty"
    by (simp add: attrs_render) (simp add: construct_def)
  have g: "\<not> get_disabled (render ?s0)" "\<not> get_loading (render ?s0)"
    "get_variant (render ?s0) = ''primary''" "get_size (render ?s0) = ''medium''"
    "get_href (render ?s0) = None" "\<not> truthy (get_onclickHandler (render ?s0))"
    by (simp_all add: a get_disabled_def get_loading_def hasAttribute_def get_variant_def
          get_size_def get_href_def get_onclickHandler_def getAttribute_def or_else_def
          truthy_def validVariants_def validSizes_def)
  have k: "handleKeydown (\<lambda>body. Inl (SyntaxError body)) ?kev (render ?s0) =
             Returned (preventDefault ?kev,
               log_effect (DispatchEvent (lume_click (preventDefault ?kev) (render ?s0))) (render ?s0))"
    using g(1,2) _ g(6) by (rule keydown_skips_navigation_plain) simp_all
  have o: "overlays (log_effect x (render ?s0)) = []" "timers (log_effect x (render ?s0)) = []" for x
    using overlays_cong [of "log_effect x (render ?s0)" "render ?s0"]
    by (simp_all add: log_effect_def overlays_render timers_render) (simp add: construct_def)
  show ?thesis
    using k g o by (simp add: preventDefault_def lume_click_def)
qed


section \<open>Validation\<close>

text \<open>
  C9. \<^verbatim>\<open>validate\<close> returns the one warning exactly when \<^verbatim>\<open>disabled\<close> and \<^verbatim>\<open>loading\<close> are both
  set, and the empty list otherwise. The conjunction is no obstacle to rendering: in every
  state \<^verbatim>\<open>render\<close> installs its markup and the \<^verbatim>\<open>.btn\<close> element.
\<close>

theorem validate_warnings:
  "validate s = (if get_disabled s \<and> get_loading s
                 then [''Button cannot be both disabled and loading''] else []) \<and>
   length (validate s) = (if get_disabled s \<and> get_loading s then 1 else 0) \<and>
   shadow_btn (render s) \<noteq> None \<and> shadow_html (render s) \<noteq> []"
  by (simp add: validate_def render_shadow shadow_markup_nonempty)

section \<open>Reads of the enumerated properties\<close>

text \<open>
  C10. Whatever the state, \<^verbatim>\<open>variant\<close>, \<^verbatim>\<open>size\<close> and \<^verbatim>\<open>target\<close> read as one of their valid
  strings. The setters of \<^verbatim>\<open>variant\<close> and \<^verbatim>\<open>size\<close> store any value, as its string, in the
  attribute; when that string is not a valid one, the read that follows gives the default
  and not what was written.
\<close>

theorem enum_reads_valid:
  "get_variant s \<in> set validVariants \<and> get_size s \<in> set validSizes \<and>
   get_target s \<in> set validTargets \<and>
   attrs (set_variant v s) ''variant'' = Some (ToString v) \<and>
   attrs (set_size v s) ''size'' = Some (ToString v) \<and>
   (ToString v \<notin> set validVariants \<longrightarrow> get_variant (set_variant v s) = ''primary'') \<and>
   (ToString v \<notin> set validSizes \<longrightarrow> get_size (set_size v s) = ''medium'')"
proof -
  have a: "get_variant s \<in> set validVariants"
    by (simp add: get_variant_def Let_def) (simp add: validVariants_def)
  have b: "get_size s \<in> set validSizes"
    by (simp add: get_size_def Let_def) (simp add: validSizes_def)
  have c: "get_target s \<in> set validTargets"
    by (simp add: get_target_def Let_def) (simp add: validTargets_def)
  have d: "attrs (set_variant v s) ''variant'' = Some (ToString v)"
    by (simp add: set_variant_def attrs_setAttribute)
  have e: "attrs (set_size v s) ''size'' = Some (ToString v)"
    by (simp add: set_size_def attrs_setAttribute)
  have f: "ToString v \<notin> set validVariants \<longrightarrow> get_variant (set_variant v s) = ''primary''"
    using d by (simp add: get_variant_def getAttribute_def or_else_def Let_def)
  have g: "ToString v \<notin> set validSizes \<longrightarrow> get_size (set_size v s) = ''medium''"
    using e by (simp add: get_size_def getAttribute_def or_else_def Let_def)
  from a b c d e f g show ?thesis by blast
qed

theorem enum_reads_valid_witness:
  "attrs (set_size (JStr ''huge'') (construct Map.empty Map.empty (\<lambda>n. []))) ''size'' = Some ''huge'' \<and>
   get_size (set_size (JStr ''huge'') (construct Map.empty Map.empty (\<lambda>n. []))) = ''medium'' \<and>
   get_variant (set_variant (JStr ''huge'') (construct Map.empty Map.empty (\<lambda>n. []))) = ''primary''"
  using enum_reads_valid [of "construct Map.empty Map.empty (\<lambda>n. [])" "JStr ''huge''"]
  by (simp add: validVariants_def validSizes_def)

end
